theory Spec2Isabelle
  imports Complex_Main
begin

section \<open>Configuration constants (modular/config.py)\<close>

text \<open>
  Timestamps and metric values are Python floats in the source. A float is modelled
  by the \<^typ>\<open>real\<close> number it denotes, so comparisons are exact, as they are in
  the source. Subtraction is not: \<open>timestamp - x\<close> is rounded to the nearest double.
  The functions that subtract therefore take the subtraction as their first argument
  \<open>fsub\<close> and carry the suffix \<open>_fl\<close>; the source's name stands for the function with the
  exact subtraction. Where the rounding of a difference decides the outcome (the
  section on continuous drowsiness) the theorem is stated for \<open>fsub\<close>. Counters are
  Python ints.
\<close>

definition LEVEL1_DURATION_SECONDS :: real where
  "LEVEL1_DURATION_SECONDS = 3"

definition LEVEL2_DURATION_SECONDS :: real where
  "LEVEL2_DURATION_SECONDS = 10"

definition YAWN_ALERT_WINDOW_SECONDS :: real where
  "YAWN_ALERT_WINDOW_SECONDS = 30"

definition YAWN_ALERT_THRESHOLD :: nat where
  "YAWN_ALERT_THRESHOLD = 2"

definition BLINK_RATE_LEVEL1_THRESHOLD :: real where
  "BLINK_RATE_LEVEL1_THRESHOLD = 30"

definition MICROSLEEP_LEVEL1_TRIGGER :: bool where
  "MICROSLEEP_LEVEL1_TRIGGER = True"

definition PERCLOS_LEVEL1_MIN :: real where
  "PERCLOS_LEVEL1_MIN = 15"

definition PERCLOS_LEVEL1_MAX :: real where
  "PERCLOS_LEVEL1_MAX = 40"

definition LEVEL1_FREQUENCY_WINDOW_SECONDS :: real where
  "LEVEL1_FREQUENCY_WINDOW_SECONDS = 300"

definition LEVEL1_FREQUENCY_THRESHOLD :: nat where
  "LEVEL1_FREQUENCY_THRESHOLD = 3"

definition EAR_CLOSED_THRESHOLD :: real where
  "EAR_CLOSED_THRESHOLD = 16 / 100"

section \<open>The engine state (class AlertEngine, modular/alerter.py)\<close>

text \<open>
  One field per attribute that \<open>__init__\<close> creates and the frame path reads or writes.
  \<open>alert_thread_alive\<close> stands for the value of
  \<open>self.alert_thread and self.alert_thread.is_alive()\<close>: it becomes true when a tone
  thread is started and false when the environment lets the thread end (the call
  \<open>ThreadExits\<close> below). The tone loops themselves, the \<open>print\<close> output and the
  \<open>last_alert_details\<close> dictionary (a logging payload) are not part of the model.
\<close>

record alert_engine =
  level1_start :: "real option"
  level1_triggered_at :: "real option"
  level2_triggered :: bool
  level1_active :: bool
  level2_active :: bool
  yawn_timestamps :: "real list"
  yawns_since_level1 :: int
  level1_trigger_history :: "real list"
  last_alert_reason :: "string option"
  alert_thread_alive :: bool
  stop_alert :: bool

definition AlertEngine_init :: alert_engine where
  "AlertEngine_init =
     \<lparr> level1_start = None,
       level1_triggered_at = None,
       level2_triggered = False,
       level1_active = False,
       level2_active = False,
       yawn_timestamps = [],
       yawns_since_level1 = 0,
       level1_trigger_history = [],
       last_alert_reason = None,
       alert_thread_alive = False,
       stop_alert = False \<rparr>"

definition DROWSY_STATES :: "string list" where
  "DROWSY_STATES = [''SLIGHTLY_DROWSY'', ''DROWSY'', ''VERY_DROWSY'', ''INATTENTIVE'']"

subsection \<open>Tone threads: start_level1_alerts, start_level2_alerts\<close>

definition start_level1_alerts :: "alert_engine \<Rightarrow> alert_engine" where
  "start_level1_alerts e =
     (if alert_thread_alive e then e
      else e\<lparr>stop_alert := False, alert_thread_alive := True\<rparr>)"

definition start_level2_alerts :: "alert_engine \<Rightarrow> alert_engine" where
  "start_level2_alerts e =
     (let e1 = e\<lparr>stop_alert := False\<rparr>;
          e2 = (if alert_thread_alive e1 then e1\<lparr>stop_alert := True\<rparr> else e1)
      in e2\<lparr>alert_thread_alive := True\<rparr>)"

subsection \<open>reset, manual_reset, get_alert_level\<close>

definition reset :: "alert_engine \<Rightarrow> alert_engine" where
  "reset e =
     (if level1_start e \<noteq> None then
        e\<lparr>level1_start := None,
          level1_triggered_at := None,
          level1_active := False,
          level2_active := False,
          stop_alert := True,
          yawn_timestamps := [],
          yawns_since_level1 := 0\<rparr>
      else e)"

definition manual_reset :: "alert_engine \<Rightarrow> alert_engine" where
  "manual_reset e = (reset e)\<lparr>level2_triggered := False\<rparr>"

definition get_alert_level :: "alert_engine \<Rightarrow> nat" where
  "get_alert_level e = (if level2_active e then 2 else if level1_active e then 1 else 0)"

subsection \<open>The trigger predicates\<close>

text \<open>
  \<open>_check_yawn_trigger\<close> and \<open>_check_frequent_level1_trigger\<close> prune their list in
  place and then count, so they return the answer together with the new state.
\<close>

definition check_yawn_trigger_fl ::
  "(real \<Rightarrow> real \<Rightarrow> real) \<Rightarrow> real \<Rightarrow> alert_engine \<Rightarrow> bool \<times> alert_engine" where
  "check_yawn_trigger_fl fsub timestamp e =
     (let cutoff_time = fsub timestamp YAWN_ALERT_WINDOW_SECONDS;
          e1 = e\<lparr>yawn_timestamps := filter (\<lambda>ts. ts \<ge> cutoff_time) (yawn_timestamps e)\<rparr>;
          window_start = fsub timestamp YAWN_ALERT_WINDOW_SECONDS;
          yawns_in_window = length (filter (\<lambda>ts. ts \<ge> window_start) (yawn_timestamps e1))
      in (yawns_in_window > YAWN_ALERT_THRESHOLD, e1))"

abbreviation check_yawn_trigger :: "real \<Rightarrow> alert_engine \<Rightarrow> bool \<times> alert_engine" where
  "check_yawn_trigger \<equiv> check_yawn_trigger_fl (-)"

definition check_blink_rate_trigger :: "real option \<Rightarrow> bool" where
  "check_blink_rate_trigger blink_rate =
     (case blink_rate of None \<Rightarrow> False | Some b \<Rightarrow> b \<ge> BLINK_RATE_LEVEL1_THRESHOLD)"

definition check_microsleep_trigger :: "int option \<Rightarrow> bool" where
  "check_microsleep_trigger microsleep_count =
     (case microsleep_count of None \<Rightarrow> False
      | Some n \<Rightarrow> MICROSLEEP_LEVEL1_TRIGGER \<and> n > 0)"

definition check_perclos_trigger :: "real option \<Rightarrow> bool" where
  "check_perclos_trigger perclos =
     (case perclos of None \<Rightarrow> False
      | Some p \<Rightarrow> PERCLOS_LEVEL1_MIN \<le> p \<and> p \<le> PERCLOS_LEVEL1_MAX)"

definition check_frequent_level1_trigger_fl ::
  "(real \<Rightarrow> real \<Rightarrow> real) \<Rightarrow> real \<Rightarrow> alert_engine \<Rightarrow> bool \<times> alert_engine" where
  "check_frequent_level1_trigger_fl fsub timestamp e =
     (let cutoff_time = fsub timestamp LEVEL1_FREQUENCY_WINDOW_SECONDS;
          e1 = e\<lparr>level1_trigger_history :=
                   filter (\<lambda>ts. ts \<ge> cutoff_time) (level1_trigger_history e)\<rparr>;
          window_start = fsub timestamp LEVEL1_FREQUENCY_WINDOW_SECONDS;
          level1_count = length (filter (\<lambda>ts. ts \<ge> window_start) (level1_trigger_history e1))
      in (level1_count \<ge> LEVEL1_FREQUENCY_THRESHOLD, e1))"

abbreviation check_frequent_level1_trigger :: "real \<Rightarrow> alert_engine \<Rightarrow> bool \<times> alert_engine" where
  "check_frequent_level1_trigger \<equiv> check_frequent_level1_trigger_fl (-)"

definition get_yawn_frequency_fl ::
  "(real \<Rightarrow> real \<Rightarrow> real) \<Rightarrow> real \<Rightarrow> alert_engine \<Rightarrow> real \<times> alert_engine" where
  "get_yawn_frequency_fl fsub timestamp e =
     (let cutoff_time = fsub timestamp YAWN_ALERT_WINDOW_SECONDS;
          e1 = e\<lparr>yawn_timestamps := filter (\<lambda>ts. ts \<ge> cutoff_time) (yawn_timestamps e)\<rparr>;
          window_start = fsub timestamp YAWN_ALERT_WINDOW_SECONDS;
          yawns_in_window = length (filter (\<lambda>ts. ts \<ge> window_start) (yawn_timestamps e1))
      in (real yawns_in_window, e1))"

abbreviation get_yawn_frequency :: "real \<Rightarrow> alert_engine \<Rightarrow> real \<times> alert_engine" where
  "get_yawn_frequency \<equiv> get_yawn_frequency_fl (-)"

subsection \<open>trigger_level1, trigger_level2\<close>

text \<open>
  The arguments \<open>perclos\<close>, \<open>blink_rate\<close> and \<open>microsleep_count\<close> of \<open>trigger_level1\<close>
  only feed the printed text and the details dictionary; what remains of the reason
  dispatch is the call of \<open>get_yawn_frequency\<close>, which prunes \<open>yawn_timestamps\<close>.
  The formatted prints of \<open>blink_rate\<close> and \<open>perclos\<close> are reached from \<open>process\<close> only
  with the reason of a trigger that is true, hence with the value present, so no call
  of \<open>process\<close> raises and the model needs no error value.
\<close>

definition trigger_level1_fl ::
  "(real \<Rightarrow> real \<Rightarrow> real) \<Rightarrow> real \<Rightarrow> string \<Rightarrow> alert_engine \<Rightarrow> alert_engine" where
  "trigger_level1_fl fsub timestamp reason e =
     (if level1_active e then e
      else
        (let e1 = e\<lparr>level1_active := True,
                     level1_triggered_at := Some timestamp,
                     yawns_since_level1 := 0,
                     level1_trigger_history := level1_trigger_history e @ [timestamp],
                     last_alert_reason := Some reason\<rparr>;
             e2 = (if reason = ''yawn frequency''
                   then snd (get_yawn_frequency_fl fsub timestamp e1) else e1)
         in start_level1_alerts e2))"

abbreviation trigger_level1 :: "real \<Rightarrow> string \<Rightarrow> alert_engine \<Rightarrow> alert_engine" where
  "trigger_level1 \<equiv> trigger_level1_fl (-)"

definition trigger_level2 :: "real \<Rightarrow> string \<Rightarrow> alert_engine \<Rightarrow> alert_engine" where
  "trigger_level2 timestamp reason e =
     (if level2_active e then e
      else start_level2_alerts
             (e\<lparr>level2_active := True,
                level2_triggered := True,
                last_alert_reason := Some reason\<rparr>))"

subsection \<open>process\<close>

text \<open>The loop over the \<open>yawn_timestamps\<close> argument at the head of \<open>process\<close>.\<close>

fun ingest_yawns :: "real list \<Rightarrow> alert_engine \<Rightarrow> alert_engine" where
  "ingest_yawns [] e = e"
| "ingest_yawns (ts # rest) e =
     ingest_yawns rest
       (if ts \<notin> set (yawn_timestamps e) then
          (let e1 = e\<lparr>yawn_timestamps := yawn_timestamps e @ [ts]\<rparr>
           in if (case level1_triggered_at e1 of None \<Rightarrow> False | Some t1 \<Rightarrow> ts \<ge> t1)
              then e1\<lparr>yawns_since_level1 := yawns_since_level1 e1 + 1\<rparr>
              else e1)
        else e)"

text \<open>The block \<open>if yawn_timestamps is not None:\<close> around that loop.\<close>

definition update_yawn_timestamps :: "real list option \<Rightarrow> alert_engine \<Rightarrow> alert_engine" where
  "update_yawn_timestamps yawn_ts e =
     (case yawn_ts of None \<Rightarrow> e | Some ys \<Rightarrow> ingest_yawns ys e)"

text \<open>\<open>" + ".join(triggers)\<close>\<close>

fun join_plus :: "string list \<Rightarrow> string" where
  "join_plus [] = []"
| "join_plus [x] = x"
| "join_plus (x # y # ys) = x @ '' + '' @ join_plus (y # ys)"

definition trigger_reason :: "bool \<Rightarrow> bool \<Rightarrow> bool \<Rightarrow> bool \<Rightarrow> string" where
  "trigger_reason yawn_trigger blink_rate_trigger perclos_trigger has_drowsiness_symptoms =
     (let triggers =
            (if yawn_trigger then [''yawn frequency''] else []) @
            (if blink_rate_trigger then [''excessive blink rate''] else []) @
            (if perclos_trigger then [''high PERCLOS''] else []) @
            (if has_drowsiness_symptoms then [''drowsiness symptoms''] else [])
      in if triggers \<noteq> [] then join_plus triggers else ''drowsiness symptoms'')"

text \<open>The decision \<open>should_escalate\<close> of the standard Level 2 escalation.\<close>

definition should_escalate ::
  "bool \<Rightarrow> bool \<Rightarrow> bool \<Rightarrow> bool \<Rightarrow> int \<Rightarrow> real option \<Rightarrow> real option \<Rightarrow> bool" where
  "should_escalate has_drowsiness_symptoms yawn_trigger blink_rate_trigger perclos_trigger
       yawns_since perclos ear =
     (if has_drowsiness_symptoms then True
      else if yawn_trigger then
        (if yawns_since > 0 then
           (let has_perclos_issue =
                  (case perclos of None \<Rightarrow> False | Some p \<Rightarrow> p \<ge> PERCLOS_LEVEL1_MIN);
                has_ear_issue =
                  (case ear of None \<Rightarrow> False | Some x \<Rightarrow> x < EAR_CLOSED_THRESHOLD)
            in has_perclos_issue \<or> has_ear_issue)
         else False)
      else if blink_rate_trigger then True
      else if perclos_trigger then True
      else False)"

text \<open>The branch \<open>if should_trigger_level1:\<close> of \<open>process\<close>.\<close>

definition process_symptoms_fl ::
  "(real \<Rightarrow> real \<Rightarrow> real) \<Rightarrow> bool \<Rightarrow> bool \<Rightarrow> bool \<Rightarrow> bool \<Rightarrow> real \<Rightarrow> real option \<Rightarrow>
   real option \<Rightarrow> alert_engine \<Rightarrow> alert_engine" where
  "process_symptoms_fl fsub has_drowsiness_symptoms yawn_trigger blink_rate_trigger perclos_trigger
       timestamp perclos ear e =
     (let e1 = (if level1_start e = None then e\<lparr>level1_start := Some timestamp\<rparr> else e);
          elapsed = (case level1_start e1 of Some s \<Rightarrow> fsub timestamp s | None \<Rightarrow> 0);
          e2 = (if elapsed \<ge> LEVEL1_DURATION_SECONDS \<and> \<not> level1_active e1
                then trigger_level1_fl fsub timestamp
                       (trigger_reason yawn_trigger blink_rate_trigger perclos_trigger
                          has_drowsiness_symptoms) e1
                else e1)
      in if level1_active e2 \<and>
            (case level1_triggered_at e2 of None \<Rightarrow> False
             | Some t1 \<Rightarrow>
                 \<not> has_drowsiness_symptoms \<and> \<not> yawn_trigger \<and> \<not> blink_rate_trigger \<and>
                 \<not> perclos_trigger \<and> yawns_since_level1 e2 = 0 \<and> fsub timestamp t1 \<ge> 5)
         then reset e2
         else
           (let (frequent_level1_trigger, e3) = check_frequent_level1_trigger_fl fsub timestamp e2;
                e4 = (if frequent_level1_trigger \<and> \<not> level2_active e3
                      then trigger_level2 timestamp ''frequent Level 1 alerts'' e3
                      else e3)
            in if level1_active e4 then
                 (case level1_triggered_at e4 of
                    None \<Rightarrow> e4
                  | Some t1 \<Rightarrow>
                      if fsub timestamp t1 \<ge> LEVEL2_DURATION_SECONDS \<and> \<not> level2_active e4 then
                        (if should_escalate has_drowsiness_symptoms yawn_trigger
                              blink_rate_trigger perclos_trigger (yawns_since_level1 e4)
                              perclos ear
                         then trigger_level2 timestamp ''persistent symptoms'' e4
                         else e4)
                      else e4)
               else e4))"

abbreviation process_symptoms ::
  "bool \<Rightarrow> bool \<Rightarrow> bool \<Rightarrow> bool \<Rightarrow> real \<Rightarrow> real option \<Rightarrow> real option \<Rightarrow>
   alert_engine \<Rightarrow> alert_engine" where
  "process_symptoms \<equiv> process_symptoms_fl (-)"

text \<open>The \<open>else:\<close> branch of \<open>process\<close>.\<close>

definition process_no_symptoms ::
  "string \<Rightarrow> bool \<Rightarrow> bool \<Rightarrow> bool \<Rightarrow> bool \<Rightarrow> alert_engine \<Rightarrow> alert_engine" where
  "process_no_symptoms state has_drowsiness_symptoms yawn_trigger blink_rate_trigger
       perclos_trigger e =
     (if state = ''ALERT'' \<or> state = ''NO_FACE'' then
        (if \<not> yawn_trigger \<and> \<not> blink_rate_trigger \<and> \<not> perclos_trigger then reset e else e)
      else if \<not> yawn_trigger \<and> \<not> blink_rate_trigger \<and> \<not> perclos_trigger then
        (if level1_active e \<and> level1_triggered_at e \<noteq> None then
           (if \<not> has_drowsiness_symptoms then reset e else e)
         else e)
      else e)"

definition process_fl ::
  "(real \<Rightarrow> real \<Rightarrow> real) \<Rightarrow> string \<Rightarrow> real \<Rightarrow> real list option \<Rightarrow> real option \<Rightarrow> real option \<Rightarrow> int option \<Rightarrow>
   real option \<Rightarrow> alert_engine \<Rightarrow> alert_engine" where
  "process_fl fsub state timestamp yawn_ts perclos blink_rate microsleep_count ear e =
     (let e1 = update_yawn_timestamps yawn_ts e;
          has_drowsiness_symptoms = (state \<in> set DROWSY_STATES);
          (yawn_trigger, e2) = check_yawn_trigger_fl fsub timestamp e1;
          blink_rate_trigger = check_blink_rate_trigger blink_rate;
          microsleep_trigger = check_microsleep_trigger microsleep_count;
          perclos_trigger = check_perclos_trigger perclos
      in if microsleep_trigger \<and> \<not> level1_active e2 then
           trigger_level1_fl fsub timestamp ''microsleep event'' e2
         else if has_drowsiness_symptoms \<or> yawn_trigger \<or> blink_rate_trigger \<or> perclos_trigger
         then process_symptoms_fl fsub has_drowsiness_symptoms yawn_trigger blink_rate_trigger
                perclos_trigger timestamp perclos ear e2
         else process_no_symptoms state has_drowsiness_symptoms yawn_trigger
                blink_rate_trigger perclos_trigger e2)"

abbreviation process ::
  "string \<Rightarrow> real \<Rightarrow> real list option \<Rightarrow> real option \<Rightarrow> real option \<Rightarrow> int option \<Rightarrow>
   real option \<Rightarrow> alert_engine \<Rightarrow> alert_engine" where
  "process \<equiv> process_fl (-)"

subsection \<open>Sequences of calls on one engine\<close>

datatype call =
    Process string real "real list option" "real option" "real option" "int option"
      "real option"
  | Reset
  | ManualReset
  | GetYawnFrequency real
  | ThreadExits

fun do_call_fl :: "(real \<Rightarrow> real \<Rightarrow> real) \<Rightarrow> alert_engine \<Rightarrow> call \<Rightarrow> alert_engine" where
  "do_call_fl fsub e (Process state timestamp yawn_ts perclos blink_rate microsleep_count ear) =
     process_fl fsub state timestamp yawn_ts perclos blink_rate microsleep_count ear e"
| "do_call_fl fsub e Reset = reset e"
| "do_call_fl fsub e ManualReset = manual_reset e"
| "do_call_fl fsub e (GetYawnFrequency timestamp) = snd (get_yawn_frequency_fl fsub timestamp e)"
| "do_call_fl fsub e ThreadExits = e\<lparr>alert_thread_alive := False\<rparr>"

abbreviation do_call :: "alert_engine \<Rightarrow> call \<Rightarrow> alert_engine" where
  "do_call \<equiv> do_call_fl (-)"

definition run_fl :: "(real \<Rightarrow> real \<Rightarrow> real) \<Rightarrow> call list \<Rightarrow> alert_engine \<Rightarrow> alert_engine" where
  "run_fl fsub cs e = foldl (do_call_fl fsub) e cs"

abbreviation run :: "call list \<Rightarrow> alert_engine \<Rightarrow> alert_engine" where
  "run \<equiv> run_fl (-)"

subsection \<open>The calls of the scenarios\<close>

text \<open>
  A frame with the default arguments of \<open>process\<close> in state DROWSY, one in state
  ALERT, and an ALERT frame that reports one microsleep. \<open>recurrence_calls\<close> raises
  Level 1 three times within 300 s: twice by dwell (each followed by a reset on an
  ALERT frame) and once by a microsleep.
\<close>

definition drowsy_call :: "real \<Rightarrow> call" where
  "drowsy_call t = Process ''DROWSY'' t None None None (Some 0) None"

definition alert_call :: "real \<Rightarrow> call" where
  "alert_call t = Process ''ALERT'' t None None None (Some 0) None"

definition microsleep_call :: "real \<Rightarrow> call" where
  "microsleep_call t = Process ''ALERT'' t None None None (Some 1) None"

definition recurrence_calls :: "call list" where
  "recurrence_calls =
     [drowsy_call 0, drowsy_call 3, alert_call 4,
      drowsy_call 100, drowsy_call 103, alert_call 104,
      microsleep_call 200]"

text \<open>
  A frame of continuous drowsiness at time \<open>t\<close>: a call of \<open>process\<close> at \<open>t\<close> in state
  DROWSY whose microsleep count does not trigger; its other arguments are free.
\<close>

fun drowsy_frame_at :: "real \<Rightarrow> call \<Rightarrow> bool" where
  "drowsy_frame_at t (Process state timestamp yawn_ts perclos blink_rate microsleep_count ear) =
     (state = ''DROWSY'' \<and> timestamp = t \<and> \<not> check_microsleep_trigger microsleep_count)"
| "drowsy_frame_at t Reset = False"
| "drowsy_frame_at t ManualReset = False"
| "drowsy_frame_at t (GetYawnFrequency timestamp) = False"
| "drowsy_frame_at t ThreadExits = False"

text \<open>
  A subtraction that rounds, to evaluate the model where an exact difference is not a
  double: it is exact when 0 is subtracted and rounds every other difference to the
  nearest multiple of \<open>2 ^ -49\<close>, the spacing of the doubles between 8 and 16.
\<close>

definition grid_sub :: "real \<Rightarrow> real \<Rightarrow> real" where
  "grid_sub a b = (if b = 0 then a else real_of_int (round ((a - b) * 2 ^ 49)) / 2 ^ 49)"

subsection \<open>Names for the intermediate values of process\<close>

text \<open>
  The state after the yawn bookkeeping and the pruning done by \<open>_check_yawn_trigger\<close>,
  and the value of \<open>yawn_trigger\<close> on that frame.
\<close>

definition pruned_fl ::
  "(real \<Rightarrow> real \<Rightarrow> real) \<Rightarrow> real \<Rightarrow> real list option \<Rightarrow> alert_engine \<Rightarrow> alert_engine" where
  "pruned_fl fsub t y e = snd (check_yawn_trigger_fl fsub t (update_yawn_timestamps y e))"

abbreviation pruned :: "real \<Rightarrow> real list option \<Rightarrow> alert_engine \<Rightarrow> alert_engine" where
  "pruned \<equiv> pruned_fl (-)"

definition yawn_trigger_on_fl ::
  "(real \<Rightarrow> real \<Rightarrow> real) \<Rightarrow> real \<Rightarrow> real list option \<Rightarrow> alert_engine \<Rightarrow> bool" where
  "yawn_trigger_on_fl fsub t y e =
     fst (check_yawn_trigger_fl fsub t (update_yawn_timestamps y e))"

abbreviation yawn_trigger_on :: "real \<Rightarrow> real list option \<Rightarrow> alert_engine \<Rightarrow> bool" where
  "yawn_trigger_on \<equiv> yawn_trigger_on_fl (-)"

section \<open>Basic facts\<close>

lemmas config_defs =
  LEVEL1_DURATION_SECONDS_def LEVEL2_DURATION_SECONDS_def YAWN_ALERT_WINDOW_SECONDS_def
  YAWN_ALERT_THRESHOLD_def BLINK_RATE_LEVEL1_THRESHOLD_def MICROSLEEP_LEVEL1_TRIGGER_def
  PERCLOS_LEVEL1_MIN_def PERCLOS_LEVEL1_MAX_def LEVEL1_FREQUENCY_WINDOW_SECONDS_def
  LEVEL1_FREQUENCY_THRESHOLD_def EAR_CLOSED_THRESHOLD_def

text \<open>The yawn bookkeeping touches \<open>yawn_timestamps\<close> and \<open>yawns_since_level1\<close> only.\<close>

lemma ingest_yawns_frame:
  "level1_start (ingest_yawns ys e) = level1_start e"
  "level1_triggered_at (ingest_yawns ys e) = level1_triggered_at e"
  "level2_triggered (ingest_yawns ys e) = level2_triggered e"
  "level1_active (ingest_yawns ys e) = level1_active e"
  "level2_active (ingest_yawns ys e) = level2_active e"
  "level1_trigger_history (ingest_yawns ys e) = level1_trigger_history e"
  "last_alert_reason (ingest_yawns ys e) = last_alert_reason e"
  "alert_thread_alive (ingest_yawns ys e) = alert_thread_alive e"
  "stop_alert (ingest_yawns ys e) = stop_alert e"
  by (induction ys arbitrary: e; simp add: Let_def)+

lemma update_yawn_timestamps_frame:
  "level1_start (update_yawn_timestamps y e) = level1_start e"
  "level1_triggered_at (update_yawn_timestamps y e) = level1_triggered_at e"
  "level2_triggered (update_yawn_timestamps y e) = level2_triggered e"
  "level1_active (update_yawn_timestamps y e) = level1_active e"
  "level2_active (update_yawn_timestamps y e) = level2_active e"
  "level1_trigger_history (update_yawn_timestamps y e) = level1_trigger_history e"
  "last_alert_reason (update_yawn_timestamps y e) = last_alert_reason e"
  "alert_thread_alive (update_yawn_timestamps y e) = alert_thread_alive e"
  "stop_alert (update_yawn_timestamps y e) = stop_alert e"
  by (simp_all add: update_yawn_timestamps_def ingest_yawns_frame split: option.splits)

lemma check_yawn_trigger_frame:
  "level1_start (snd (check_yawn_trigger_fl fsub t e)) = level1_start e"
  "level1_triggered_at (snd (check_yawn_trigger_fl fsub t e)) = level1_triggered_at e"
  "level2_triggered (snd (check_yawn_trigger_fl fsub t e)) = level2_triggered e"
  "level1_active (snd (check_yawn_trigger_fl fsub t e)) = level1_active e"
  "level2_active (snd (check_yawn_trigger_fl fsub t e)) = level2_active e"
  "yawns_since_level1 (snd (check_yawn_trigger_fl fsub t e)) = yawns_since_level1 e"
  "level1_trigger_history (snd (check_yawn_trigger_fl fsub t e)) = level1_trigger_history e"
  "last_alert_reason (snd (check_yawn_trigger_fl fsub t e)) = last_alert_reason e"
  "alert_thread_alive (snd (check_yawn_trigger_fl fsub t e)) = alert_thread_alive e"
  "stop_alert (snd (check_yawn_trigger_fl fsub t e)) = stop_alert e"
  by (simp_all add: check_yawn_trigger_fl_def Let_def)

lemma pruned_frame:
  "level1_start (pruned_fl fsub t y e) = level1_start e"
  "level1_triggered_at (pruned_fl fsub t y e) = level1_triggered_at e"
  "level2_triggered (pruned_fl fsub t y e) = level2_triggered e"
  "level1_active (pruned_fl fsub t y e) = level1_active e"
  "level2_active (pruned_fl fsub t y e) = level2_active e"
  "yawns_since_level1 (pruned_fl fsub t y e) = yawns_since_level1 (update_yawn_timestamps y e)"
  "level1_trigger_history (pruned_fl fsub t y e) = level1_trigger_history e"
  "last_alert_reason (pruned_fl fsub t y e) = last_alert_reason e"
  "alert_thread_alive (pruned_fl fsub t y e) = alert_thread_alive e"
  "stop_alert (pruned_fl fsub t y e) = stop_alert e"
  by (simp_all add: pruned_fl_def check_yawn_trigger_frame update_yawn_timestamps_frame)

text \<open>\<open>process\<close> as a three-way branch over the values computed at its head.\<close>

lemma process_unfold:
  "process_fl fsub state t y perclos blink_rate m ear e =
     (if check_microsleep_trigger m \<and> \<not> level1_active e then
        trigger_level1_fl fsub t ''microsleep event'' (pruned_fl fsub t y e)
      else if state \<in> set DROWSY_STATES \<or> yawn_trigger_on_fl fsub t y e \<or>
              check_blink_rate_trigger blink_rate \<or> check_perclos_trigger perclos
      then process_symptoms_fl fsub (state \<in> set DROWSY_STATES) (yawn_trigger_on_fl fsub t y e)
             (check_blink_rate_trigger blink_rate) (check_perclos_trigger perclos)
             t perclos ear (pruned_fl fsub t y e)
      else process_no_symptoms state (state \<in> set DROWSY_STATES) (yawn_trigger_on_fl fsub t y e)
             (check_blink_rate_trigger blink_rate) (check_perclos_trigger perclos)
             (pruned_fl fsub t y e))"
  by (simp add: process_fl_def Let_def case_prod_beta pruned_fl_def yawn_trigger_on_fl_def
      check_yawn_trigger_frame update_yawn_timestamps_frame)

text \<open>The definitions to unfold when a call is evaluated on concrete arguments.\<close>

lemmas model_defs =
  process_fl_def process_symptoms_fl_def process_no_symptoms_def update_yawn_timestamps_def
  check_yawn_trigger_fl_def check_blink_rate_trigger_def check_microsleep_trigger_def
  check_perclos_trigger_def check_frequent_level1_trigger_fl_def get_yawn_frequency_fl_def
  trigger_level1_fl_def trigger_level2_def start_level1_alerts_def start_level2_alerts_def
  reset_def manual_reset_def get_alert_level_def trigger_reason_def should_escalate_def
  DROWSY_STATES_def AlertEngine_init_def run_fl_def yawn_trigger_on_fl_def pruned_fl_def
  config_defs Let_def

lemmas scenario_defs = drowsy_call_def alert_call_def microsleep_call_def recurrence_calls_def

text \<open>The engine states the two scenario prefixes lead to.\<close>

lemma recurrence_state:
  "run recurrence_calls AlertEngine_init =
      \<lparr> level1_start = None, level1_triggered_at = Some 200, level2_triggered = False,
        level1_active = True, level2_active = False, yawn_timestamps = [],
        yawns_since_level1 = 0, level1_trigger_history = [3, 103, 200],
        last_alert_reason = Some ''microsleep event'', alert_thread_alive = True,
        stop_alert = True \<rparr>"
  by (simp add: model_defs scenario_defs)

lemma level1_state:
  "run [drowsy_call 0, drowsy_call 3] AlertEngine_init =
      \<lparr> level1_start = Some 0, level1_triggered_at = Some 3, level2_triggered = False,
        level1_active = True, level2_active = False, yawn_timestamps = [],
        yawns_since_level1 = 0, level1_trigger_history = [3],
        last_alert_reason = Some ''drowsiness symptoms'', alert_thread_alive = True,
        stop_alert = False \<rparr>"
  by (simp add: model_defs scenario_defs)

text \<open>What \<open>trigger_level1\<close>, \<open>trigger_level2\<close> and the frequency check do to each field.\<close>

lemma trigger_level1_fields:
  "level1_active (trigger_level1_fl fsub t r e)"
  "level2_active (trigger_level1_fl fsub t r e) = level2_active e"
  "level2_triggered (trigger_level1_fl fsub t r e) = level2_triggered e"
  "level1_start (trigger_level1_fl fsub t r e) = level1_start e"
  "level1_triggered_at (trigger_level1_fl fsub t r e) =
     (if level1_active e then level1_triggered_at e else Some t)"
  "level1_trigger_history (trigger_level1_fl fsub t r e) =
     (if level1_active e then level1_trigger_history e else level1_trigger_history e @ [t])"
  "yawns_since_level1 (trigger_level1_fl fsub t r e) =
     (if level1_active e then yawns_since_level1 e else 0)"
  "last_alert_reason (trigger_level1_fl fsub t r e) =
     (if level1_active e then last_alert_reason e else Some r)"
  by (simp_all add: trigger_level1_fl_def get_yawn_frequency_fl_def start_level1_alerts_def Let_def)

lemma trigger_level2_fields:
  "level2_active (trigger_level2 t r e)"
  "level1_active (trigger_level2 t r e) = level1_active e"
  "level1_start (trigger_level2 t r e) = level1_start e"
  "level1_triggered_at (trigger_level2 t r e) = level1_triggered_at e"
  "level1_trigger_history (trigger_level2 t r e) = level1_trigger_history e"
  "yawns_since_level1 (trigger_level2 t r e) = yawns_since_level1 e"
  "level2_triggered (trigger_level2 t r e) = (level2_active e \<longrightarrow> level2_triggered e)"
  "last_alert_reason (trigger_level2 t r e) =
     (if level2_active e then last_alert_reason e else Some r)"
  by (simp_all add: trigger_level2_def start_level2_alerts_def Let_def)

lemma check_frequent_fields:
  "fst (check_frequent_level1_trigger_fl fsub t e) =
     (length (filter (\<lambda>ts. fsub t LEVEL1_FREQUENCY_WINDOW_SECONDS \<le> ts)
        (level1_trigger_history e)) \<ge> LEVEL1_FREQUENCY_THRESHOLD)"
  "level1_trigger_history (snd (check_frequent_level1_trigger_fl fsub t e)) =
     filter (\<lambda>ts. fsub t LEVEL1_FREQUENCY_WINDOW_SECONDS \<le> ts) (level1_trigger_history e)"
  "level1_active (snd (check_frequent_level1_trigger_fl fsub t e)) = level1_active e"
  "level2_active (snd (check_frequent_level1_trigger_fl fsub t e)) = level2_active e"
  "level2_triggered (snd (check_frequent_level1_trigger_fl fsub t e)) = level2_triggered e"
  "level1_start (snd (check_frequent_level1_trigger_fl fsub t e)) = level1_start e"
  "level1_triggered_at (snd (check_frequent_level1_trigger_fl fsub t e)) = level1_triggered_at e"
  "yawns_since_level1 (snd (check_frequent_level1_trigger_fl fsub t e)) = yawns_since_level1 e"
  "last_alert_reason (snd (check_frequent_level1_trigger_fl fsub t e)) = last_alert_reason e"
  by (simp_all add: check_frequent_level1_trigger_fl_def Let_def)

lemma process_no_symptoms_level2:
  "\<not> level2_active e \<Longrightarrow> \<not> level2_active (process_no_symptoms state h yt bt pt e)"
  by (simp add: process_no_symptoms_def reset_def)

text \<open>
  Inside the branch \<open>if should_trigger_level1:\<close> at least one of the four triggers is
  true, so the test guarding the buffered reset (no trigger active, no yawn since
  Level 1, 5 s since \<open>level1_triggered_at\<close>) is never satisfied there: the branch
  reduces to the dwell timer, the frequency check and the standard escalation.
\<close>

lemma buffered_reset_unreachable:
  assumes "h \<or> yt \<or> bt \<or> pt"
  shows "process_symptoms_fl fsub h yt bt pt t perclos ear e =
     (let e1 = (if level1_start e = None then e\<lparr>level1_start := Some t\<rparr> else e);
          elapsed = (case level1_start e1 of Some s \<Rightarrow> fsub t s | None \<Rightarrow> 0);
          e2 = (if elapsed \<ge> LEVEL1_DURATION_SECONDS \<and> \<not> level1_active e1
                then trigger_level1_fl fsub t (trigger_reason yt bt pt h) e1 else e1);
          e3 = snd (check_frequent_level1_trigger_fl fsub t e2);
          e4 = (if fst (check_frequent_level1_trigger_fl fsub t e2) \<and> \<not> level2_active e3
                then trigger_level2 t ''frequent Level 1 alerts'' e3 else e3)
      in if level1_active e4 then
           (case level1_triggered_at e4 of
              None \<Rightarrow> e4
            | Some t1 \<Rightarrow>
                if fsub t t1 \<ge> LEVEL2_DURATION_SECONDS \<and> \<not> level2_active e4 then
                  (if should_escalate h yt bt pt (yawns_since_level1 e4) perclos ear
                   then trigger_level2 t ''persistent symptoms'' e4 else e4)
                else e4)
         else e4)"
proof -
  have dead: "(level1_active x \<and>
           (case level1_triggered_at x of None \<Rightarrow> False
            | Some t1 \<Rightarrow> \<not> h \<and> \<not> yt \<and> \<not> bt \<and> \<not> pt \<and>
                yawns_since_level1 x = 0 \<and> fsub t t1 \<ge> 5)) = False" for x
    using assms by (cases "level1_triggered_at x") auto
  show ?thesis
    unfolding process_symptoms_fl_def Let_def case_prod_beta dead by simp
qed

lemma process_symptoms_steps:
  assumes "h \<or> yt \<or> bt \<or> pt"
    and "e1 = (if level1_start e = None then e\<lparr>level1_start := Some t\<rparr> else e)"
    and "e2 = (if (case level1_start e1 of Some s \<Rightarrow> fsub t s | None \<Rightarrow> 0)
                    \<ge> LEVEL1_DURATION_SECONDS \<and> \<not> level1_active e1
               then trigger_level1_fl fsub t (trigger_reason yt bt pt h) e1 else e1)"
    and "e3 = snd (check_frequent_level1_trigger_fl fsub t e2)"
    and "e4 = (if fst (check_frequent_level1_trigger_fl fsub t e2) \<and> \<not> level2_active e3
               then trigger_level2 t ''frequent Level 1 alerts'' e3 else e3)"
  shows "process_symptoms_fl fsub h yt bt pt t perclos ear e =
     (if level1_active e4 then
        (case level1_triggered_at e4 of
           None \<Rightarrow> e4
         | Some t1 \<Rightarrow>
             if fsub t t1 \<ge> LEVEL2_DURATION_SECONDS \<and> \<not> level2_active e4 then
               (if should_escalate h yt bt pt (yawns_since_level1 e4) perclos ear
                then trigger_level2 t ''persistent symptoms'' e4 else e4)
             else e4)
      else e4)"
  unfolding buffered_reset_unreachable [OF assms(1)] Let_def assms(2-5) by (rule refl)

section \<open>Microsleep bypass\<close>

text \<open>
  Claim C3. A call of \<open>process\<close> with \<open>microsleep_count \<ge> 1\<close> while Level 1 is not
  active activates Level 1 on that call, whatever the state argument and the other
  metrics are: \<open>level1_active\<close> becomes true, \<open>level1_triggered_at\<close> is the timestamp of
  the call, the reason is "microsleep event", and the dwell timer \<open>level1_start\<close> is
  neither consulted nor changed. The level read afterwards is 1 unless Level 2 was
  already active.
\<close>

theorem microsleep_fires_level1:
  assumes "microsleep_count \<ge> 1" and "\<not> level1_active e"
  shows "let e' = process state timestamp yawn_ts perclos blink_rate (Some microsleep_count) ear e
         in level1_active e' \<and> level1_triggered_at e' = Some timestamp \<and>
            last_alert_reason e' = Some ''microsleep event'' \<and>
            level1_start e' = level1_start e \<and>
            level2_active e' = level2_active e \<and>
            get_alert_level e' \<ge> 1 \<and>
            (\<not> level2_active e \<longrightarrow> get_alert_level e' = 1)"
proof -
  have m: "check_microsleep_trigger (Some microsleep_count)"
    using assms by (simp add: check_microsleep_trigger_def MICROSLEEP_LEVEL1_TRIGGER_def)
  have p: "process state timestamp yawn_ts perclos blink_rate (Some microsleep_count) ear e =
           trigger_level1 timestamp ''microsleep event'' (pruned timestamp yawn_ts e)"
    using m assms by (simp add: process_unfold)
  show ?thesis
    unfolding p using assms
    by (simp add: trigger_level1_fl_def start_level1_alerts_def get_alert_level_def Let_def
        pruned_frame)
qed

theorem microsleep_fires_level1_witness:
  "(1::int) \<ge> 1 \<and> \<not> level1_active AlertEngine_init \<and>
   (let e' = process ''ALERT'' 7 None None None (Some 1) None AlertEngine_init
    in level1_active e' \<and> level1_triggered_at e' = Some 7 \<and>
       last_alert_reason e' = Some ''microsleep event'' \<and>
       level1_start e' = None \<and> get_alert_level e' = 1)"
  using microsleep_fires_level1 [where microsleep_count = 1 and e = AlertEngine_init
      and state = "''ALERT''" and timestamp = 7 and yawn_ts = None and perclos = None
      and blink_rate = None and ear = None]
  by (simp add: AlertEngine_init_def Let_def)

section \<open>reset\<close>

text \<open>
  Claim C9. \<open>reset\<close> is idempotent: in every engine state, reachable or not, calling it
  twice in a row leaves the engine in the state one call leaves it in.
\<close>

theorem reset_idempotent: "reset (reset e) = reset e"
  by (simp add: reset_def)


text \<open>
  What \<open>reset\<close> and \<open>manual_reset\<close> do in every state, and what they clear once
  \<open>level1_start\<close> is set.
\<close>

lemma reset_effect:
  "level1_trigger_history (reset e) = level1_trigger_history e \<and>
   level1_trigger_history (manual_reset e) = level1_trigger_history e \<and>
   level2_triggered (manual_reset e) = False \<and>
   level1_start (reset e) = None \<and>
   level1_start (manual_reset e) = None \<and>
   (level1_start e \<noteq> None \<longrightarrow>
      level1_triggered_at (reset e) = None \<and> \<not> level1_active (reset e) \<and>
      \<not> level2_active (reset e) \<and> yawn_timestamps (reset e) = [] \<and>
      yawns_since_level1 (reset e) = 0 \<and>
      level1_triggered_at (manual_reset e) = None \<and> \<not> level1_active (manual_reset e) \<and>
      \<not> level2_active (manual_reset e) \<and> yawn_timestamps (manual_reset e) = [] \<and>
      yawns_since_level1 (manual_reset e) = 0)"
  by (simp add: reset_def manual_reset_def)

text \<open>
  Claim C6, evaluated on the code. On a fresh engine, a frame that reports a
  microsleep raises Level 1 and leaves \<open>level1_start\<close> None. Called in that state,
  \<open>reset\<close> and \<open>manual_reset\<close> keep \<open>level1_trigger_history\<close>, as the claim says, but they
  clear nothing: \<open>level1_active\<close> stays true, \<open>level1_triggered_at\<close> stays set and the
  level stays 1, where the claim has these fields cleared. After a Level 1 raised by
  dwell, \<open>level1_start\<close> is set and the same calls clear them (\<open>reset_effect\<close>).
\<close>

theorem reset_leaves_microsleep_level1:
  "level1_start (process ''ALERT'' 0 None None None (Some 1) None AlertEngine_init) = None \<and>
   level1_trigger_history
     (reset (process ''ALERT'' 0 None None None (Some 1) None AlertEngine_init)) = [0] \<and>
   level1_active (reset (process ''ALERT'' 0 None None None (Some 1) None AlertEngine_init)) \<and>
   level1_triggered_at (reset (process ''ALERT'' 0 None None None (Some 1) None AlertEngine_init))
     = Some 0 \<and>
   level1_active (manual_reset (process ''ALERT'' 0 None None None (Some 1) None AlertEngine_init)) \<and>
   get_alert_level
     (manual_reset (process ''ALERT'' 0 None None None (Some 1) None AlertEngine_init)) = 1"
  by (simp add: model_defs)

lemma process_symptoms_sets_level1_start:
  assumes "h \<or> yt \<or> bt \<or> pt" and "level1_start e = None"
  shows "level1_start (process_symptoms h yt bt pt t perclos ear e) = Some t"
proof -
  define e1 where "e1 = (if level1_start e = None then e\<lparr>level1_start := Some t\<rparr> else e)"
  define e2 where "e2 = (if (case level1_start e1 of Some s \<Rightarrow> t - s | None \<Rightarrow> 0)
                            \<ge> LEVEL1_DURATION_SECONDS \<and> \<not> level1_active e1
              then trigger_level1 t (trigger_reason yt bt pt h) e1 else e1)"
  define e3 where "e3 = snd (check_frequent_level1_trigger t e2)"
  define e4 where "e4 = (if fst (check_frequent_level1_trigger t e2) \<and> \<not> level2_active e3
             then trigger_level2 t ''frequent Level 1 alerts'' e3 else e3)"
  have "level1_start e1 = Some t" using assms(2) by (simp add: e1_def)
  then have "level1_start e2 = Some t" by (simp add: e2_def trigger_level1_fields)
  then have "level1_start e4 = Some t"
    by (simp add: e4_def e3_def check_frequent_fields trigger_level2_fields)
  then show ?thesis
    by (simp add: process_symptoms_steps [where fsub = "(-)", OF assms(1) e1_def e2_def e3_def e4_def]
        trigger_level2_fields split: option.splits)
qed

text \<open>
  Claim C10. When \<open>level1_start\<close> is None, \<open>reset\<close> changes no field. A Level 1
  raised by the microsleep branch on an engine whose \<open>level1_start\<close> is None leaves
  \<open>level1_start\<close> None, so afterwards \<open>reset\<close> is the identity and \<open>manual_reset\<close> only
  clears \<open>level2_triggered\<close>: \<open>level1_active\<close> stays true. It also stays true, with
  \<open>level1_start\<close> still None, across every later call of \<open>process\<close> on which none of
  the state, yawn, blink-rate and PERCLOS triggers is active; a call on which one of
  them is active sets \<open>level1_start\<close>.
\<close>

theorem microsleep_level1_survives_reset:
  "(level1_start e = None \<longrightarrow> reset e = e) \<and>
   (level1_start e = None \<and> \<not> level1_active e \<and> check_microsleep_trigger m \<longrightarrow>
      (let e' = process state t y perclos blink_rate m ear e
       in level1_active e' \<and> level1_start e' = None \<and> reset e' = e' \<and>
          manual_reset e' = e'\<lparr>level2_triggered := False\<rparr> \<and>
          level1_active (manual_reset e'))) \<and>
   (level1_start e = None \<and> level1_active e \<and> state \<notin> set DROWSY_STATES \<and>
    \<not> yawn_trigger_on t y e \<and> \<not> check_blink_rate_trigger blink_rate \<and>
    \<not> check_perclos_trigger perclos \<longrightarrow>
      (let e' = process state t y perclos blink_rate m ear e
       in level1_active e' \<and> level1_start e' = None)) \<and>
   (level1_start e = None \<and> level1_active e \<and>
    (state \<in> set DROWSY_STATES \<or> yawn_trigger_on t y e \<or>
     check_blink_rate_trigger blink_rate \<or> check_perclos_trigger perclos) \<longrightarrow>
      level1_start (process state t y perclos blink_rate m ear e) = Some t)"
proof -
  have "level1_start (process state t y perclos blink_rate m ear e) = Some t"
    if "level1_start e = None" "level1_active e"
      "state \<in> set DROWSY_STATES \<or> yawn_trigger_on t y e \<or>
       check_blink_rate_trigger blink_rate \<or> check_perclos_trigger perclos"
    using that
    by (simp add: process_unfold process_symptoms_sets_level1_start pruned_frame)
  then show ?thesis
    by (simp add: reset_def manual_reset_def process_unfold trigger_level1_fl_def
        start_level1_alerts_def get_yawn_frequency_fl_def Let_def pruned_frame
        process_no_symptoms_def)
qed

theorem microsleep_level1_survives_reset_witness:
  "level1_start AlertEngine_init = None \<and> \<not> level1_active AlertEngine_init \<and>
   check_microsleep_trigger (Some 1) \<and>
   level1_active (run [microsleep_call 0] AlertEngine_init) \<and>
   level1_start (run [microsleep_call 0] AlertEngine_init) = None \<and>
   reset (run [microsleep_call 0] AlertEngine_init) = run [microsleep_call 0] AlertEngine_init \<and>
   level1_active (manual_reset (run [microsleep_call 0] AlertEngine_init)) \<and>
   ''ALERT'' \<notin> set DROWSY_STATES \<and>
   \<not> yawn_trigger_on 1 None (run [microsleep_call 0] AlertEngine_init) \<and>
   \<not> check_blink_rate_trigger None \<and> \<not> check_perclos_trigger None \<and>
   level1_active (run [microsleep_call 0, alert_call 1] AlertEngine_init) \<and>
   level1_start (run [microsleep_call 0, alert_call 1] AlertEngine_init) = None \<and>
   ''DROWSY'' \<in> set DROWSY_STATES \<and>
   level1_start (run [microsleep_call 0, drowsy_call 1] AlertEngine_init) = Some 1 \<and>
   \<not> level1_active (reset (run [microsleep_call 0, drowsy_call 1] AlertEngine_init))"
  using microsleep_level1_survives_reset [where e = AlertEngine_init and m = "Some 1"
      and state = "''ALERT''" and t = 0 and y = None and perclos = None
      and blink_rate = None and ear = None]
    microsleep_level1_survives_reset [where
      e = "run [microsleep_call 0] AlertEngine_init" and m = "Some 0"
      and state = "''ALERT''" and t = 1 and y = None and perclos = None
      and blink_rate = None and ear = None]
    microsleep_level1_survives_reset [where
      e = "run [microsleep_call 0] AlertEngine_init" and m = "Some 0"
      and state = "''DROWSY''" and t = 1 and y = None and perclos = None
      and blink_rate = None and ear = None]
  by (simp add: model_defs scenario_defs)

section \<open>Sliding windows\<close>

text \<open>
  Claim C7. Each sliding-window query at time \<open>now\<close> first replaces its list by the
  entries with \<open>now - window \<le> ts\<close> and counts those: the yawn window of
  \<open>_check_yawn_trigger\<close> and \<open>get_yawn_frequency\<close> over \<open>yawn_timestamps\<close>, and the
  Level 1 frequency window of \<open>_check_frequent_level1_trigger\<close> over
  \<open>level1_trigger_history\<close>. The answer is computed from the entries of the old list
  that are at or after \<open>now - window\<close>, no entry older than that remains, and an
  entry exactly at \<open>now - window\<close> is kept.
\<close>

theorem window_queries_discard_stale:
  "yawn_timestamps (snd (check_yawn_trigger now e)) =
     filter (\<lambda>ts. now - YAWN_ALERT_WINDOW_SECONDS \<le> ts) (yawn_timestamps e) \<and>
   fst (check_yawn_trigger now e) =
     (length (filter (\<lambda>ts. now - YAWN_ALERT_WINDOW_SECONDS \<le> ts) (yawn_timestamps e))
        > YAWN_ALERT_THRESHOLD) \<and>
   yawn_timestamps (snd (get_yawn_frequency now e)) =
     filter (\<lambda>ts. now - YAWN_ALERT_WINDOW_SECONDS \<le> ts) (yawn_timestamps e) \<and>
   fst (get_yawn_frequency now e) =
     real (length (filter (\<lambda>ts. now - YAWN_ALERT_WINDOW_SECONDS \<le> ts) (yawn_timestamps e))) \<and>
   level1_trigger_history (snd (check_frequent_level1_trigger now e)) =
     filter (\<lambda>ts. now - LEVEL1_FREQUENCY_WINDOW_SECONDS \<le> ts) (level1_trigger_history e) \<and>
   fst (check_frequent_level1_trigger now e) =
     (length (filter (\<lambda>ts. now - LEVEL1_FREQUENCY_WINDOW_SECONDS \<le> ts)
        (level1_trigger_history e)) \<ge> LEVEL1_FREQUENCY_THRESHOLD) \<and>
   (\<forall>ts \<in> set (yawn_timestamps (snd (check_yawn_trigger now e))).
      now - YAWN_ALERT_WINDOW_SECONDS \<le> ts) \<and>
   (\<forall>ts \<in> set (level1_trigger_history (snd (check_frequent_level1_trigger now e))).
      now - LEVEL1_FREQUENCY_WINDOW_SECONDS \<le> ts) \<and>
   (now - YAWN_ALERT_WINDOW_SECONDS \<in> set (yawn_timestamps e) \<longrightarrow>
      now - YAWN_ALERT_WINDOW_SECONDS \<in> set (yawn_timestamps (snd (check_yawn_trigger now e)))) \<and>
   (now - LEVEL1_FREQUENCY_WINDOW_SECONDS \<in> set (level1_trigger_history e) \<longrightarrow>
      now - LEVEL1_FREQUENCY_WINDOW_SECONDS
        \<in> set (level1_trigger_history (snd (check_frequent_level1_trigger now e))))"
  by (simp add: check_yawn_trigger_fl_def get_yawn_frequency_fl_def
      check_frequent_level1_trigger_fl_def Let_def)

theorem window_queries_discard_stale_witness:
  "(let e = AlertEngine_init\<lparr>yawn_timestamps := [5, 70, 71, 100],
                               level1_trigger_history := [10, 100, 399, 400]\<rparr>
    in yawn_timestamps (snd (check_yawn_trigger 100 e)) = [70, 71, 100] \<and>
       fst (check_yawn_trigger 100 e) \<and>
       fst (get_yawn_frequency 100 e) = 3 \<and>
       level1_trigger_history (snd (check_frequent_level1_trigger 400 e)) = [100, 399, 400] \<and>
       fst (check_frequent_level1_trigger 400 e) \<and>
       70 \<in> set (yawn_timestamps e) \<and>
       100 \<in> set (level1_trigger_history e))"
  using window_queries_discard_stale [where now = 100
      and e = "AlertEngine_init\<lparr>yawn_timestamps := [5, 70, 71, 100],
                               level1_trigger_history := [10, 100, 399, 400]\<rparr>"]
    window_queries_discard_stale [where now = 400
      and e = "AlertEngine_init\<lparr>yawn_timestamps := [5, 70, 71, 100],
                               level1_trigger_history := [10, 100, 399, 400]\<rparr>"]
  by (simp add: config_defs AlertEngine_init_def Let_def)

section \<open>Yawn bookkeeping\<close>

lemma distinct_ingest_yawns:
  "distinct (yawn_timestamps e) \<Longrightarrow> distinct (yawn_timestamps (ingest_yawns ys e))"
  by (induction ys arbitrary: e) (simp_all add: Let_def)

lemma ingest_yawns_present:
  "set ys \<subseteq> set (yawn_timestamps e) \<Longrightarrow> ingest_yawns ys e = e"
  by (induction ys arbitrary: e) simp_all

lemma distinct_update_yawn_timestamps:
  "distinct (yawn_timestamps e) \<Longrightarrow> distinct (yawn_timestamps (update_yawn_timestamps y e))"
  by (simp add: update_yawn_timestamps_def distinct_ingest_yawns split: option.splits)

lemma distinct_pruned:
  "distinct (yawn_timestamps e) \<Longrightarrow> distinct (yawn_timestamps (pruned t y e))"
  using distinct_update_yawn_timestamps [of e y]
  by (simp add: pruned_fl_def check_yawn_trigger_fl_def Let_def)

lemma distinct_get_yawn_frequency:
  "distinct (yawn_timestamps e) \<Longrightarrow> distinct (yawn_timestamps (snd (get_yawn_frequency t e)))"
  by (simp add: get_yawn_frequency_fl_def Let_def)

lemma distinct_trigger_level1:
  "distinct (yawn_timestamps e) \<Longrightarrow> distinct (yawn_timestamps (trigger_level1 t r e))"
  by (simp add: trigger_level1_fl_def get_yawn_frequency_fl_def start_level1_alerts_def Let_def)

lemma yawn_timestamps_trigger_level2:
  "yawn_timestamps (trigger_level2 t r e) = yawn_timestamps e"
  by (simp add: trigger_level2_def start_level2_alerts_def Let_def)

lemma distinct_reset:
  "distinct (yawn_timestamps e) \<Longrightarrow> distinct (yawn_timestamps (reset e))"
  by (simp add: reset_def)

lemma yawn_timestamps_check_frequent:
  "yawn_timestamps (snd (check_frequent_level1_trigger t e)) = yawn_timestamps e"
  by (simp add: check_frequent_level1_trigger_fl_def Let_def)

lemma distinct_process_symptoms:
  assumes "distinct (yawn_timestamps e)"
  shows "distinct (yawn_timestamps (process_symptoms h yt bt pt t perclos ear e))"
proof -
  define e1 where "e1 = (if level1_start e = None then e\<lparr>level1_start := Some t\<rparr> else e)"
  define e2 where "e2 = (if (case level1_start e1 of Some s \<Rightarrow> t - s | None \<Rightarrow> 0)
                            \<ge> LEVEL1_DURATION_SECONDS \<and> \<not> level1_active e1
                then trigger_level1 t (trigger_reason yt bt pt h) e1 else e1)"
  have d1: "distinct (yawn_timestamps e1)"
    using assms by (simp add: e1_def)
  have d2: "distinct (yawn_timestamps e2)"
    using d1 by (simp add: e2_def distinct_trigger_level1)
  show ?thesis
    using d2 distinct_reset [OF d2]
    by (simp add: process_symptoms_fl_def Let_def case_prod_beta e1_def [symmetric]
        e2_def [symmetric] yawn_timestamps_trigger_level2 yawn_timestamps_check_frequent
        split: option.splits)
qed

lemma distinct_process_no_symptoms:
  "distinct (yawn_timestamps e) \<Longrightarrow>
   distinct (yawn_timestamps (process_no_symptoms state h yt bt pt e))"
  by (simp add: process_no_symptoms_def distinct_reset)

lemma distinct_process:
  "distinct (yawn_timestamps e) \<Longrightarrow>
   distinct (yawn_timestamps (process state t y perclos blink_rate m ear e))"
  by (simp add: process_unfold distinct_trigger_level1 distinct_pruned
      distinct_process_symptoms distinct_process_no_symptoms)

lemma distinct_do_call:
  "distinct (yawn_timestamps e) \<Longrightarrow> distinct (yawn_timestamps (do_call e c))"
  by (cases c)
     (simp_all add: distinct_process distinct_reset manual_reset_def
        distinct_get_yawn_frequency)

lemma distinct_run:
  "distinct (yawn_timestamps e) \<Longrightarrow> distinct (yawn_timestamps (run cs e))"
  unfolding run_fl_def
  by (induction cs arbitrary: e) (simp_all add: distinct_do_call)

text \<open>
  Claim C8. After any sequence of calls on a fresh engine (\<open>process\<close>, \<open>reset\<close>,
  \<open>manual_reset\<close>, \<open>get_yawn_frequency\<close>, in any order and with any arguments),
  \<open>yawn_timestamps\<close> holds no timestamp twice. In every engine state, a
  \<open>yawn_timestamps\<close> argument whose entries are all present already leaves the whole
  engine state as it is, in particular the list and the counter
  \<open>yawns_since_level1\<close>, so that \<open>process\<close> behaves as if no argument had been given.
\<close>

theorem yawn_timestamps_never_duplicated:
  "distinct (yawn_timestamps (run cs AlertEngine_init)) \<and>
   (set ys \<subseteq> set (yawn_timestamps e) \<longrightarrow>
      update_yawn_timestamps (Some ys) e = e \<and>
      yawn_timestamps (update_yawn_timestamps (Some ys) e) = yawn_timestamps e \<and>
      yawns_since_level1 (update_yawn_timestamps (Some ys) e) = yawns_since_level1 e \<and>
      process state t (Some ys) perclos blink_rate m ear e =
        process state t None perclos blink_rate m ear e)"
proof -
  have "distinct (yawn_timestamps (run cs AlertEngine_init))"
    by (rule distinct_run) (simp add: AlertEngine_init_def)
  moreover have "update_yawn_timestamps (Some ys) e = e"
    if "set ys \<subseteq> set (yawn_timestamps e)"
    using that by (simp add: update_yawn_timestamps_def ingest_yawns_present)
  moreover have "process state t (Some ys) perclos blink_rate m ear e =
        process state t None perclos blink_rate m ear e"
    if "set ys \<subseteq> set (yawn_timestamps e)"
    using that by (simp add: process_fl_def update_yawn_timestamps_def ingest_yawns_present)
  ultimately show ?thesis by simp
qed

theorem yawn_timestamps_never_duplicated_witness:
  "yawn_timestamps
     (run [Process ''ALERT'' 1 (Some [1/2, 1/2, 7/10]) None None (Some 0) None,
           Process ''ALERT'' 2 (Some [1/2, 7/10, 3/2]) None None (Some 0) None]
        AlertEngine_init) = [1/2, 7/10, 3/2] \<and>
   distinct (yawn_timestamps
     (run [Process ''ALERT'' 1 (Some [1/2, 1/2, 7/10]) None None (Some 0) None,
           Process ''ALERT'' 2 (Some [1/2, 7/10, 3/2]) None None (Some 0) None]
        AlertEngine_init)) \<and>
   set [7/10, 1/2] \<subseteq> set (yawn_timestamps (AlertEngine_init\<lparr>yawn_timestamps := [1/2, 7/10, 3/2]\<rparr>)) \<and>
   update_yawn_timestamps (Some [7/10, 1/2])
     (AlertEngine_init\<lparr>yawn_timestamps := [1/2, 7/10, 3/2]\<rparr>) =
     AlertEngine_init\<lparr>yawn_timestamps := [1/2, 7/10, 3/2]\<rparr>"
  using yawn_timestamps_never_duplicated [where
      cs = "[Process ''ALERT'' 1 (Some [1/2, 1/2, 7/10]) None None (Some 0) None,
             Process ''ALERT'' 2 (Some [1/2, 7/10, 3/2]) None None (Some 0) None]"
      and ys = "[7/10, 1/2]" and e = "AlertEngine_init\<lparr>yawn_timestamps := [1/2, 7/10, 3/2]\<rparr>"]
  by (simp add: model_defs)


section \<open>Leaving Level 1\<close>

text \<open>
  Claim C1, evaluated on the code. On a fresh engine, DROWSY frames at t = 0 and
  t = 3 raise Level 1 at t = 3. An ALERT frame at t = 4 with no trigger and no yawn
  already returns the engine to level 0: the reset of the \<open>else:\<close> branch of \<open>process\<close>
  applies no 5 s buffer, and the buffered reset is unreachable
  (\<open>buffered_reset_unreachable\<close>).
\<close>

theorem level1_reset_has_no_buffer:
  "get_alert_level (run [drowsy_call 0, drowsy_call 3] AlertEngine_init) = 1 \<and>
   level1_triggered_at (run [drowsy_call 0, drowsy_call 3] AlertEngine_init) = Some 3 \<and>
   get_alert_level (run [drowsy_call 0, drowsy_call 3, alert_call 4] AlertEngine_init) = 0"
  by (simp add: model_defs scenario_defs)

section \<open>Escalation by recurrence\<close>

text \<open>
  Claim C2, as amended. Let \<open>level1_trigger_history\<close> hold at least
  LEVEL1_FREQUENCY_THRESHOLD entries at or after \<open>t - 300\<close> and let Level 2 be
  inactive. A call of \<open>process\<close> at \<open>t\<close> on which at least one of the state, yawn,
  blink-rate and PERCLOS triggers is active, and which does not leave through the
  microsleep branch, escalates to Level 2 with the reason "frequent Level 1 alerts",
  whether or not Level 1 is active.
\<close>

theorem frequent_level1_escalates:
  assumes cnt: "length (filter (\<lambda>ts. t - LEVEL1_FREQUENCY_WINDOW_SECONDS \<le> ts)
                  (level1_trigger_history e)) \<ge> LEVEL1_FREQUENCY_THRESHOLD"
    and nl2: "\<not> level2_active e"
    and trig: "state \<in> set DROWSY_STATES \<or> yawn_trigger_on t y e \<or>
               check_blink_rate_trigger blink_rate \<or> check_perclos_trigger perclos"
    and nms: "\<not> (check_microsleep_trigger m \<and> \<not> level1_active e)"
  shows "level2_active (process state t y perclos blink_rate m ear e) \<and>
         level2_triggered (process state t y perclos blink_rate m ear e) \<and>
         get_alert_level (process state t y perclos blink_rate m ear e) = 2 \<and>
         last_alert_reason (process state t y perclos blink_rate m ear e)
           = Some ''frequent Level 1 alerts''"
proof -
  define h where "h = (state \<in> set DROWSY_STATES)"
  define yt where "yt = yawn_trigger_on t y e"
  define bt where "bt = check_blink_rate_trigger blink_rate"
  define pt where "pt = check_perclos_trigger perclos"
  define p where "p = pruned t y e"
  define e1 where "e1 = (if level1_start p = None then p\<lparr>level1_start := Some t\<rparr> else p)"
  define e2 where "e2 = (if (case level1_start e1 of Some s \<Rightarrow> t - s | None \<Rightarrow> 0)
                            \<ge> LEVEL1_DURATION_SECONDS \<and> \<not> level1_active e1
              then trigger_level1 t (trigger_reason yt bt pt h) e1 else e1)"
  define e3 where "e3 = snd (check_frequent_level1_trigger t e2)"
  define e4 where "e4 = (if fst (check_frequent_level1_trigger t e2) \<and> \<not> level2_active e3
             then trigger_level2 t ''frequent Level 1 alerts'' e3 else e3)"
  have trig': "h \<or> yt \<or> bt \<or> pt"
    using trig by (simp add: h_def yt_def bt_def pt_def)
  have f1: "level1_trigger_history e1 = level1_trigger_history e" "\<not> level2_active e1"
    using nl2 by (simp_all add: e1_def p_def pruned_frame)
  have f2: "\<not> level2_active e2"
    using f1 by (simp add: e2_def trigger_level1_fields)
  have h2: "level1_trigger_history e2 = level1_trigger_history e \<or>
            level1_trigger_history e2 = level1_trigger_history e @ [t]"
    using f1 by (simp add: e2_def trigger_level1_fields)
  have c2: "fst (check_frequent_level1_trigger t e2)"
    using h2 cnt by (auto simp add: check_frequent_fields)
  have f3: "\<not> level2_active e3"
    using f2 by (simp add: e3_def check_frequent_fields)
  have f4: "level2_active e4" "level2_triggered e4"
    "last_alert_reason e4 = Some ''frequent Level 1 alerts''"
    using f3 c2 by (simp_all add: e4_def trigger_level2_fields)
  have "process state t y perclos blink_rate m ear e = process_symptoms h yt bt pt t perclos ear p"
    using nms trig
    by (auto simp add: process_unfold h_def yt_def bt_def pt_def p_def)
  also have "\<dots> = e4"
    using f4(1)
    by (simp add: process_symptoms_steps [where fsub = "(-)", OF trig' e1_def e2_def e3_def e4_def]
        split: option.splits)
  finally show ?thesis
    using f4 by (simp add: get_alert_level_def)
qed

theorem frequent_level1_escalates_witness:
  "length (filter (\<lambda>ts. 201 - LEVEL1_FREQUENCY_WINDOW_SECONDS \<le> ts)
      (level1_trigger_history (run recurrence_calls AlertEngine_init)))
     \<ge> LEVEL1_FREQUENCY_THRESHOLD \<and>
   \<not> level2_active (run recurrence_calls AlertEngine_init) \<and>
   (''DROWSY'' \<in> set DROWSY_STATES \<or>
    yawn_trigger_on 201 None (run recurrence_calls AlertEngine_init) \<or>
    check_blink_rate_trigger None \<or> check_perclos_trigger None) \<and>
   \<not> (check_microsleep_trigger (Some 0) \<and>
      \<not> level1_active (run recurrence_calls AlertEngine_init)) \<and>
   level2_active (process ''DROWSY'' 201 None None None (Some 0) None
      (run recurrence_calls AlertEngine_init)) \<and>
   get_alert_level (process ''DROWSY'' 201 None None None (Some 0) None
      (run recurrence_calls AlertEngine_init)) = 2 \<and>
   last_alert_reason (process ''DROWSY'' 201 None None None (Some 0) None
      (run recurrence_calls AlertEngine_init)) = Some ''frequent Level 1 alerts''"
proof -
  have pre: "length (filter (\<lambda>ts. 201 - LEVEL1_FREQUENCY_WINDOW_SECONDS \<le> ts)
      (level1_trigger_history (run recurrence_calls AlertEngine_init)))
     \<ge> LEVEL1_FREQUENCY_THRESHOLD" "\<not> level2_active (run recurrence_calls AlertEngine_init)"
    "''DROWSY'' \<in> set DROWSY_STATES \<or>
     yawn_trigger_on 201 None (run recurrence_calls AlertEngine_init) \<or>
     check_blink_rate_trigger None \<or> check_perclos_trigger None"
    "\<not> (check_microsleep_trigger (Some 0) \<and>
        \<not> level1_active (run recurrence_calls AlertEngine_init))"
    unfolding recurrence_state by (simp_all add: model_defs)
  show ?thesis
    using pre frequent_level1_escalates [OF pre, where ear = None]
    by simp
qed

text \<open>
  A frame on which none of the four triggers is active, or which leaves through the
  microsleep branch, never raises Level 2.
\<close>

lemma frame_without_trigger_keeps_level2:
  assumes "\<not> level2_active e"
    and "\<not> (state \<in> set DROWSY_STATES \<or> yawn_trigger_on t y e \<or>
            check_blink_rate_trigger blink_rate \<or> check_perclos_trigger perclos) \<or>
         (check_microsleep_trigger m \<and> \<not> level1_active e)"
  shows "\<not> level2_active (process state t y perclos blink_rate m ear e)"
  using assms
  by (auto simp add: process_unfold trigger_level1_fields pruned_frame
      process_no_symptoms_level2)

text \<open>
  The claim as stated fails on a frame without trigger: after \<open>recurrence_calls\<close> the
  history holds three entries within the window and Level 2 is inactive, and an ALERT
  frame at t = 201 leaves the level at 1.
\<close>

theorem frequent_level1_needs_active_trigger:
  "length (filter (\<lambda>ts. 201 - LEVEL1_FREQUENCY_WINDOW_SECONDS \<le> ts)
      (level1_trigger_history (run recurrence_calls AlertEngine_init)))
     \<ge> LEVEL1_FREQUENCY_THRESHOLD \<and>
   \<not> level2_active (run recurrence_calls AlertEngine_init) \<and>
   \<not> level2_active (process ''ALERT'' 201 None None None (Some 0) None
        (run recurrence_calls AlertEngine_init)) \<and>
   get_alert_level (process ''ALERT'' 201 None None None (Some 0) None
        (run recurrence_calls AlertEngine_init)) = 1"
  unfolding recurrence_state by (simp add: model_defs)


section \<open>Standard escalation\<close>

text \<open>
  Claim C5, as amended. Let Level 1 be active with
  \<open>t - level1_triggered_at \<ge> LEVEL2_DURATION_SECONDS\<close>, Level 2 inactive, and let the
  frequency check not fire on the call (fewer than LEVEL1_FREQUENCY_THRESHOLD
  entries of \<open>level1_trigger_history\<close> at or after \<open>t - 300\<close>). Then \<open>process\<close>
  escalates to Level 2 exactly in these cases: the state is a drowsy state; otherwise
  the yawn trigger is active, at least one yawn was counted since Level 1 began
  (after this call's yawn bookkeeping) and PERCLOS is at least PERCLOS_LEVEL1_MIN or
  EAR is below EAR_CLOSED_THRESHOLD; otherwise the yawn trigger is inactive and the
  blink-rate trigger or the PERCLOS trigger is active.
\<close>

theorem standard_escalation:
  assumes l1: "level1_active e" and ta: "level1_triggered_at e = Some t1"
    and el: "t - t1 \<ge> LEVEL2_DURATION_SECONDS" and nl2: "\<not> level2_active e"
    and nf: "length (filter (\<lambda>ts. t - LEVEL1_FREQUENCY_WINDOW_SECONDS \<le> ts)
               (level1_trigger_history e)) < LEVEL1_FREQUENCY_THRESHOLD"
  shows "level2_active (process state t y perclos blink_rate m ear e) =
     (if state \<in> set DROWSY_STATES then True
      else if yawn_trigger_on t y e then
        yawns_since_level1 (update_yawn_timestamps y e) > 0 \<and>
        ((case perclos of None \<Rightarrow> False | Some p \<Rightarrow> p \<ge> PERCLOS_LEVEL1_MIN) \<or>
         (case ear of None \<Rightarrow> False | Some x \<Rightarrow> x < EAR_CLOSED_THRESHOLD))
      else check_blink_rate_trigger blink_rate \<or> check_perclos_trigger perclos)"
proof -
  define h where "h = (state \<in> set DROWSY_STATES)"
  define yt where "yt = yawn_trigger_on t y e"
  define bt where "bt = check_blink_rate_trigger blink_rate"
  define pt where "pt = check_perclos_trigger perclos"
  define p where "p = pruned t y e"
  have pf: "level1_active p" "level1_triggered_at p = Some t1" "\<not> level2_active p"
    "level1_trigger_history p = level1_trigger_history e"
    "yawns_since_level1 p = yawns_since_level1 (update_yawn_timestamps y e)"
    using l1 ta nl2 by (simp_all add: p_def pruned_frame)
  show ?thesis
  proof (cases "h \<or> yt \<or> bt \<or> pt")
    case False
    then have "process state t y perclos blink_rate m ear e =
        process_no_symptoms state h yt bt pt p"
      using l1 by (simp add: process_unfold h_def yt_def bt_def pt_def p_def)
    then have "\<not> level2_active (process state t y perclos blink_rate m ear e)"
      using pf(3) by (simp add: process_no_symptoms_level2)
    then show ?thesis
      using False by (simp add: h_def yt_def bt_def pt_def)
  next
    case True
    define e1 where "e1 = (if level1_start p = None then p\<lparr>level1_start := Some t\<rparr> else p)"
    define e2 where "e2 = (if (case level1_start e1 of Some s \<Rightarrow> t - s | None \<Rightarrow> 0)
                              \<ge> LEVEL1_DURATION_SECONDS \<and> \<not> level1_active e1
                then trigger_level1 t (trigger_reason yt bt pt h) e1 else e1)"
    define e3 where "e3 = snd (check_frequent_level1_trigger t e2)"
    define e4 where "e4 = (if fst (check_frequent_level1_trigger t e2) \<and> \<not> level2_active e3
               then trigger_level2 t ''frequent Level 1 alerts'' e3 else e3)"
    have f1: "level1_active e1" "level1_triggered_at e1 = Some t1" "\<not> level2_active e1"
      "level1_trigger_history e1 = level1_trigger_history e"
      "yawns_since_level1 e1 = yawns_since_level1 (update_yawn_timestamps y e)"
      using pf by (simp_all add: e1_def)
    have e2: "e2 = e1"
      using f1(1) by (simp add: e2_def)
    have c2: "\<not> fst (check_frequent_level1_trigger t e2)"
      using nf f1(4) by (simp add: e2 check_frequent_fields)
    have f4: "level1_active e4" "level1_triggered_at e4 = Some t1" "\<not> level2_active e4"
      "yawns_since_level1 e4 = yawns_since_level1 (update_yawn_timestamps y e)"
      using f1 c2 by (simp_all add: e4_def e3_def e2 check_frequent_fields)
    have "process state t y perclos blink_rate m ear e = process_symptoms h yt bt pt t perclos ear p"
      using True l1 by (simp add: process_unfold h_def yt_def bt_def pt_def p_def)
    also have "\<dots> = (if should_escalate h yt bt pt
                          (yawns_since_level1 (update_yawn_timestamps y e)) perclos ear
                       then trigger_level2 t ''persistent symptoms'' e4 else e4)"
      using f4 el
      by (simp add: process_symptoms_steps [where fsub = "(-)", OF True e1_def e2_def e3_def e4_def])
    finally have "level2_active (process state t y perclos blink_rate m ear e) =
        should_escalate h yt bt pt (yawns_since_level1 (update_yawn_timestamps y e)) perclos ear"
      using f4(3) by (simp add: trigger_level2_fields)
    then show ?thesis
      by (simp add: should_escalate_def Let_def h_def yt_def bt_def pt_def)
  qed
qed

theorem standard_escalation_witness:
  "level1_active (run [drowsy_call 0, drowsy_call 3] AlertEngine_init) \<and>
   level1_triggered_at (run [drowsy_call 0, drowsy_call 3] AlertEngine_init) = Some 3 \<and>
   13 - 3 \<ge> LEVEL2_DURATION_SECONDS \<and>
   \<not> level2_active (run [drowsy_call 0, drowsy_call 3] AlertEngine_init) \<and>
   length (filter (\<lambda>ts. 13 - LEVEL1_FREQUENCY_WINDOW_SECONDS \<le> ts)
     (level1_trigger_history (run [drowsy_call 0, drowsy_call 3] AlertEngine_init)))
     < LEVEL1_FREQUENCY_THRESHOLD \<and>
   level2_active (process ''DROWSY'' 13 None None None (Some 0) None
     (run [drowsy_call 0, drowsy_call 3] AlertEngine_init)) \<and>
   yawn_trigger_on 13 (Some [10, 11, 12]) (run [drowsy_call 0, drowsy_call 3] AlertEngine_init) \<and>
   \<not> level2_active (process ''ALERT'' 13 (Some [10, 11, 12]) None None (Some 0) None
     (run [drowsy_call 0, drowsy_call 3] AlertEngine_init)) \<and>
   level2_active (process ''ALERT'' 13 (Some [10, 11, 12]) (Some 20) None (Some 0) None
     (run [drowsy_call 0, drowsy_call 3] AlertEngine_init))"
proof -
  have pre: "level1_active (run [drowsy_call 0, drowsy_call 3] AlertEngine_init)"
    "level1_triggered_at (run [drowsy_call 0, drowsy_call 3] AlertEngine_init) = Some 3"
    "13 - 3 \<ge> LEVEL2_DURATION_SECONDS"
    "\<not> level2_active (run [drowsy_call 0, drowsy_call 3] AlertEngine_init)"
    "length (filter (\<lambda>ts. 13 - LEVEL1_FREQUENCY_WINDOW_SECONDS \<le> ts)
       (level1_trigger_history (run [drowsy_call 0, drowsy_call 3] AlertEngine_init)))
       < LEVEL1_FREQUENCY_THRESHOLD"
    unfolding level1_state by (simp_all add: config_defs)
  have side: "''DROWSY'' \<in> set DROWSY_STATES" "''ALERT'' \<notin> set DROWSY_STATES"
    "yawn_trigger_on 13 (Some [10, 11, 12]) (run [drowsy_call 0, drowsy_call 3] AlertEngine_init)"
    "yawns_since_level1 (update_yawn_timestamps (Some [10, 11, 12])
        (run [drowsy_call 0, drowsy_call 3] AlertEngine_init)) = 3"
    "\<not> check_blink_rate_trigger None" "\<not> check_perclos_trigger None"
    unfolding level1_state by (simp_all add: model_defs)
  show ?thesis
    using pre side
      standard_escalation [OF pre, where state = "''DROWSY''" and y = None
        and perclos = None and blink_rate = None and m = "Some 0" and ear = None]
      standard_escalation [OF pre, where state = "''ALERT''" and y = "Some [10, 11, 12]"
        and perclos = None and blink_rate = None and m = "Some 0" and ear = None]
      standard_escalation [OF pre, where state = "''ALERT''" and y = "Some [10, 11, 12]"
        and perclos = "Some 20" and blink_rate = None and m = "Some 0" and ear = None]
    by (simp add: config_defs)
qed

text \<open>
  Without the condition on the frequency check the claim fails: after
  \<open>recurrence_calls\<close> Level 1 is active since t = 200 and the history holds three
  entries. At t = 211 an ALERT frame reporting yawns at 190, 191 and 192 has the yawn
  trigger active and no yawn counted since Level 1, and the call escalates all the
  same, through the frequency check.
\<close>

theorem standard_escalation_counterexample:
  "level1_active (run recurrence_calls AlertEngine_init) \<and>
   level1_triggered_at (run recurrence_calls AlertEngine_init) = Some 200 \<and>
   211 - 200 \<ge> LEVEL2_DURATION_SECONDS \<and>
   \<not> level2_active (run recurrence_calls AlertEngine_init) \<and>
   ''ALERT'' \<notin> set DROWSY_STATES \<and>
   yawn_trigger_on 211 (Some [190, 191, 192]) (run recurrence_calls AlertEngine_init) \<and>
   yawns_since_level1
     (update_yawn_timestamps (Some [190, 191, 192]) (run recurrence_calls AlertEngine_init)) = 0 \<and>
   level2_active (process ''ALERT'' 211 (Some [190, 191, 192]) None None (Some 0) None
     (run recurrence_calls AlertEngine_init)) \<and>
   last_alert_reason (process ''ALERT'' 211 (Some [190, 191, 192]) None None (Some 0) None
     (run recurrence_calls AlertEngine_init)) = Some ''frequent Level 1 alerts''"
  unfolding recurrence_state by (simp add: model_defs)


section \<open>Continuous drowsiness\<close>

lemma find_snoc:
  "find P (xs @ [x]) =
     (case find P xs of Some a \<Rightarrow> Some a | None \<Rightarrow> if P x then Some x else None)"
  by (induction xs) simp_all

lemma find_sorted_threshold:
  fixes xs :: "real list"
  assumes "sorted xs" and "xs \<noteq> []"
  shows "(find (\<lambda>x. c \<le> x) xs = None) = (last xs < c)"
proof -
  have "last xs \<in> set xs" using assms(2) by simp
  moreover have "\<forall>x \<in> set xs. x \<le> last xs"
    using assms by (induction xs) auto
  ultimately show ?thesis
    by (force simp add: find_None_iff)
qed

lemma find_Some_in_set: "find P xs = Some a \<Longrightarrow> a \<in> set xs"
  by (auto simp add: find_Some_iff)

lemma drowsy_step:
  assumes ms: "\<not> check_microsleep_trigger m"
    and s: "level1_start e = Some 0 \<or> (level1_start e = None \<and> t = 0)"
    and ex: "fsub t 0 = t" "fsub t t = 0"
    and hb: "length (level1_trigger_history e) \<le> (if level1_active e then 1 else 0)"
    and l21: "level2_active e \<longrightarrow> level1_active e"
  shows "level1_start (process_fl fsub ''DROWSY'' t y perclos blink_rate m ear e) = Some 0"
    and "length (level1_trigger_history
            (process_fl fsub ''DROWSY'' t y perclos blink_rate m ear e))
           \<le> (if level1_active (process_fl fsub ''DROWSY'' t y perclos blink_rate m ear e)
              then 1 else 0)"
    and "level1_active (process_fl fsub ''DROWSY'' t y perclos blink_rate m ear e) =
           (level1_active e \<or> LEVEL1_DURATION_SECONDS \<le> t)"
    and "level1_triggered_at (process_fl fsub ''DROWSY'' t y perclos blink_rate m ear e) =
           (if \<not> level1_active e \<and> LEVEL1_DURATION_SECONDS \<le> t then Some t
            else level1_triggered_at e)"
    and "level2_active (process_fl fsub ''DROWSY'' t y perclos blink_rate m ear e) =
           (level2_active e \<or>
            (level1_active e \<and>
             (case level1_triggered_at e of None \<Rightarrow> False
              | Some t1 \<Rightarrow> LEVEL2_DURATION_SECONDS \<le> fsub t t1)))"
proof -
  define yt where "yt = yawn_trigger_on_fl fsub t y e"
  define bt where "bt = check_blink_rate_trigger blink_rate"
  define pt where "pt = check_perclos_trigger perclos"
  define p where "p = pruned_fl fsub t y e"
  define e1 where "e1 = (if level1_start p = None then p\<lparr>level1_start := Some t\<rparr> else p)"
  define e2 where "e2 = (if (case level1_start e1 of Some s \<Rightarrow> fsub t s | None \<Rightarrow> 0)
                            \<ge> LEVEL1_DURATION_SECONDS \<and> \<not> level1_active e1
              then trigger_level1_fl fsub t (trigger_reason yt bt pt True) e1
              else e1)"
  define e3 where "e3 = snd (check_frequent_level1_trigger_fl fsub t e2)"
  define e4 where "e4 = (if fst (check_frequent_level1_trigger_fl fsub t e2) \<and> \<not> level2_active e3
             then trigger_level2 t ''frequent Level 1 alerts'' e3 else e3)"
  define r where "r = process_fl fsub ''DROWSY'' t y perclos blink_rate m ear e"
  have trig: "True \<or> yt \<or> bt \<or> pt" by simp
  have r: "r = process_symptoms_fl fsub True yt bt pt t perclos ear p"
    using ms
    by (simp add: r_def process_unfold DROWSY_STATES_def p_def yt_def bt_def pt_def)
  have pf: "level1_start p = level1_start e" "level1_active p = level1_active e"
    "level2_active p = level2_active e" "level1_triggered_at p = level1_triggered_at e"
    "level1_trigger_history p = level1_trigger_history e"
    by (simp_all add: p_def pruned_frame)
  have s1: "level1_start e1 = Some 0"
    using s pf(1) by (auto simp add: e1_def)
  have f1: "level1_active e1 = level1_active e" "level2_active e1 = level2_active e"
    "level1_triggered_at e1 = level1_triggered_at e"
    "level1_trigger_history e1 = level1_trigger_history e"
    using pf by (simp_all add: e1_def)
  have el: "(case level1_start e1 of Some s \<Rightarrow> fsub t s | None \<Rightarrow> 0) = t"
    using s1 ex(1) by simp
  have f2: "level1_start e2 = Some 0"
    "level1_active e2 = (level1_active e \<or> LEVEL1_DURATION_SECONDS \<le> t)"
    "level2_active e2 = level2_active e"
    "level1_triggered_at e2 =
       (if \<not> level1_active e \<and> LEVEL1_DURATION_SECONDS \<le> t then Some t
        else level1_triggered_at e)"
    "length (level1_trigger_history e2) \<le> (if level1_active e2 then 1 else 0)"
    using s1 f1 hb unfolding e2_def el
    by (auto simp add: trigger_level1_fields split: if_splits)
  have c2: "\<not> fst (check_frequent_level1_trigger_fl fsub t e2)"
  proof -
    have "length (filter (\<lambda>ts. fsub t LEVEL1_FREQUENCY_WINDOW_SECONDS \<le> ts)
            (level1_trigger_history e2)) \<le> length (level1_trigger_history e2)"
      by (rule length_filter_le)
    also have "\<dots> \<le> 1" using f2(5) by (simp split: if_splits)
    finally show ?thesis
      by (simp add: check_frequent_fields LEVEL1_FREQUENCY_THRESHOLD_def)
  qed
  have h3: "length (level1_trigger_history e3) \<le> length (level1_trigger_history e2)"
    by (simp add: e3_def check_frequent_fields)
  have e4: "e4 = e3" using c2 by (simp add: e4_def)
  have f4: "level1_start e4 = Some 0"
    "level1_active e4 = (level1_active e \<or> LEVEL1_DURATION_SECONDS \<le> t)"
    "level2_active e4 = level2_active e"
    "level1_triggered_at e4 =
       (if \<not> level1_active e \<and> LEVEL1_DURATION_SECONDS \<le> t then Some t
        else level1_triggered_at e)"
    using f2 by (simp_all add: e4 e3_def check_frequent_fields)
  have la3: "level1_active e3 = level1_active e2"
    by (simp add: e3_def check_frequent_fields)
  have h4: "length (level1_trigger_history e4) \<le> (if level1_active e4 then 1 else 0)"
    using h3 f2(5) unfolding e4 la3 by linarith
  have se: "should_escalate True a b c n perclos ear" for a b c n
    by (simp add: should_escalate_def)
  have r4: "r = (if level1_active e4 then
        (case level1_triggered_at e4 of
           None \<Rightarrow> e4
         | Some t1 \<Rightarrow>
             if fsub t t1 \<ge> LEVEL2_DURATION_SECONDS \<and> \<not> level2_active e4 then
               trigger_level2 t ''persistent symptoms'' e4
             else e4)
      else e4)"
    unfolding r process_symptoms_steps [OF trig e1_def e2_def e3_def e4_def]
    by (simp add: se)
  have ten: "\<not> LEVEL2_DURATION_SECONDS \<le> fsub t t"
    using ex(2) by (simp add: LEVEL2_DURATION_SECONDS_def)
  have rf: "level1_start r = level1_start e4" "level1_active r = level1_active e4"
    "level1_triggered_at r = level1_triggered_at e4"
    "level1_trigger_history r = level1_trigger_history e4"
    unfolding r4 by (simp_all add: trigger_level2_fields split: option.splits)
  have rl2: "level2_active r =
      (level2_active e4 \<or>
       (level1_active e4 \<and>
        (case level1_triggered_at e4 of None \<Rightarrow> False
         | Some t1 \<Rightarrow> LEVEL2_DURATION_SECONDS \<le> fsub t t1)))"
    unfolding r4 by (auto simp add: trigger_level2_fields split: option.splits)
  show "level1_start (process_fl fsub ''DROWSY'' t y perclos blink_rate m ear e) = Some 0"
    unfolding r_def [symmetric] rf by (rule f4(1))
  show "level1_active (process_fl fsub ''DROWSY'' t y perclos blink_rate m ear e) =
           (level1_active e \<or> LEVEL1_DURATION_SECONDS \<le> t)"
    unfolding r_def [symmetric] rf by (rule f4(2))
  show "length (level1_trigger_history
            (process_fl fsub ''DROWSY'' t y perclos blink_rate m ear e))
           \<le> (if level1_active (process_fl fsub ''DROWSY'' t y perclos blink_rate m ear e)
              then 1 else 0)"
    unfolding r_def [symmetric] rf by (rule h4)
  show "level1_triggered_at (process_fl fsub ''DROWSY'' t y perclos blink_rate m ear e) =
           (if \<not> level1_active e \<and> LEVEL1_DURATION_SECONDS \<le> t then Some t
            else level1_triggered_at e)"
    unfolding r_def [symmetric] rf by (rule f4(4))
  show "level2_active (process_fl fsub ''DROWSY'' t y perclos blink_rate m ear e) =
           (level2_active e \<or>
            (level1_active e \<and>
             (case level1_triggered_at e of None \<Rightarrow> False
              | Some t1 \<Rightarrow> LEVEL2_DURATION_SECONDS \<le> fsub t t1)))"
    unfolding r_def [symmetric] rl2 f4 using ten by auto
qed


lemma drowsy_frame_step:
  assumes c: "drowsy_frame_at t c"
    and s: "level1_start e = Some 0 \<or> (level1_start e = None \<and> t = 0)"
    and ex: "fsub t 0 = t" "fsub t t = 0"
    and hb: "length (level1_trigger_history e) \<le> (if level1_active e then 1 else 0)"
    and l21: "level2_active e \<longrightarrow> level1_active e"
  shows "level1_start (do_call_fl fsub e c) = Some 0"
    and "length (level1_trigger_history (do_call_fl fsub e c))
           \<le> (if level1_active (do_call_fl fsub e c) then 1 else 0)"
    and "level1_active (do_call_fl fsub e c) = (level1_active e \<or> LEVEL1_DURATION_SECONDS \<le> t)"
    and "level1_triggered_at (do_call_fl fsub e c) =
           (if \<not> level1_active e \<and> LEVEL1_DURATION_SECONDS \<le> t then Some t
            else level1_triggered_at e)"
    and "level2_active (do_call_fl fsub e c) =
           (level2_active e \<or>
            (level1_active e \<and>
             (case level1_triggered_at e of None \<Rightarrow> False
              | Some t1 \<Rightarrow> LEVEL2_DURATION_SECONDS \<le> fsub t t1)))"
proof -
  obtain y perclos blink_rate m ear where
    cc: "c = Process ''DROWSY'' t y perclos blink_rate m ear"
    and ms: "\<not> check_microsleep_trigger m"
    using c by (cases c) auto
  note st = drowsy_step [where fsub = fsub and t = t and e = e and m = m and y = y
      and perclos = perclos and blink_rate = blink_rate and ear = ear, OF ms s ex hb l21]
  show "level1_start (do_call_fl fsub e c) = Some 0"
    unfolding cc do_call_fl.simps by (rule st(1))
  show "length (level1_trigger_history (do_call_fl fsub e c))
           \<le> (if level1_active (do_call_fl fsub e c) then 1 else 0)"
    unfolding cc do_call_fl.simps by (rule st(2))
  show "level1_active (do_call_fl fsub e c) = (level1_active e \<or> LEVEL1_DURATION_SECONDS \<le> t)"
    unfolding cc do_call_fl.simps by (rule st(3))
  show "level1_triggered_at (do_call_fl fsub e c) =
           (if \<not> level1_active e \<and> LEVEL1_DURATION_SECONDS \<le> t then Some t
            else level1_triggered_at e)"
    unfolding cc do_call_fl.simps by (rule st(4))
  show "level2_active (do_call_fl fsub e c) =
           (level2_active e \<or>
            (level1_active e \<and>
             (case level1_triggered_at e of None \<Rightarrow> False
              | Some t1 \<Rightarrow> LEVEL2_DURATION_SECONDS \<le> fsub t t1)))"
    unfolding cc do_call_fl.simps by (rule st(5))
qed

lemma drowsy_run_invariant:
  assumes "list_all2 drowsy_frame_at (0 # ts) cs"
    and "sorted (0 # ts)"
    and "\<forall>t \<in> set (0 # ts). fsub t 0 = t \<and> fsub t t = 0"
    and "\<forall>a \<in> set (0 # ts). \<forall>b \<in> set (0 # ts). \<forall>c \<in> set (0 # ts).
           a \<le> b \<longrightarrow> fsub a c \<le> fsub b c"
  shows "level1_start (run_fl fsub cs AlertEngine_init) = Some 0 \<and>
     length (level1_trigger_history (run_fl fsub cs AlertEngine_init))
       \<le> (if level1_active (run_fl fsub cs AlertEngine_init) then 1 else 0) \<and>
     level1_active (run_fl fsub cs AlertEngine_init)
       = (LEVEL1_DURATION_SECONDS \<le> last (0 # ts)) \<and>
     (case find (\<lambda>x. LEVEL1_DURATION_SECONDS \<le> x) (0 # ts) of
        None \<Rightarrow> level1_triggered_at (run_fl fsub cs AlertEngine_init) = None \<and>
                \<not> level2_active (run_fl fsub cs AlertEngine_init)
      | Some t1 \<Rightarrow>
          level1_triggered_at (run_fl fsub cs AlertEngine_init) = Some t1 \<and>
          level2_active (run_fl fsub cs AlertEngine_init)
            = (LEVEL2_DURATION_SECONDS \<le> fsub (last (0 # ts)) t1))"
  using assms
proof (induction ts arbitrary: cs rule: rev_induct)
  case Nil
  then obtain c where cs: "cs = [c]" and c: "drowsy_frame_at 0 c"
    by (auto simp add: list_all2_Cons1)
  have ex: "fsub 0 0 = 0" using Nil.prems(3) by simp
  have i: "level1_start AlertEngine_init = Some 0 \<or>
      (level1_start AlertEngine_init = None \<and> (0::real) = 0)"
    "length (level1_trigger_history AlertEngine_init)
       \<le> (if level1_active AlertEngine_init then 1 else 0)"
    "level2_active AlertEngine_init \<longrightarrow> level1_active AlertEngine_init"
    by (simp_all add: AlertEngine_init_def)
  note st = drowsy_frame_step [where fsub = fsub and t = 0 and e = AlertEngine_init and c = c,
      OF c i(1) ex ex i(2) i(3)]
  have init: "\<not> level1_active AlertEngine_init" "\<not> level2_active AlertEngine_init"
    "level1_triggered_at AlertEngine_init = None"
    by (simp_all add: AlertEngine_init_def)
  have three: "\<not> LEVEL1_DURATION_SECONDS \<le> 0"
    by (simp add: LEVEL1_DURATION_SECONDS_def)
  show ?case
    unfolding cs run_fl_def using st init three by simp
next
  case (snoc t ts)
  obtain cs' c where cs: "cs = cs' @ [c]" and fr: "list_all2 drowsy_frame_at (0 # ts) cs'"
    and c: "drowsy_frame_at t c"
  proof -
    have "list_all2 drowsy_frame_at ((0 # ts) @ [t]) cs"
      using snoc.prems(1) by simp
    then obtain us vs where "cs = us @ vs" "list_all2 drowsy_frame_at (0 # ts) us"
      "list_all2 drowsy_frame_at [t] vs"
      unfolding list_all2_append1 by blast
    then show ?thesis
      using that by (auto simp add: list_all2_Cons1)
  qed
  define e where "e = run_fl fsub cs' AlertEngine_init"
  define F where "F = find (\<lambda>x. LEVEL1_DURATION_SECONDS \<le> x) (0 # ts)"
  define L where "L = last (0 # ts)"
  have srt: "sorted (0 # ts)" and le: "L \<le> t"
    using snoc.prems(2) by (auto simp add: sorted_append L_def)
  have sub: "set (0 # ts) \<subseteq> set (0 # ts @ [t])" by auto
  have ex': "\<forall>t \<in> set (0 # ts). fsub t 0 = t \<and> fsub t t = 0"
    using snoc.prems(3) sub by blast
  have mono': "\<forall>a \<in> set (0 # ts). \<forall>b \<in> set (0 # ts). \<forall>c \<in> set (0 # ts).
           a \<le> b \<longrightarrow> fsub a c \<le> fsub b c"
    using snoc.prems(4) sub by blast
  note ih = snoc.IH [OF fr srt ex' mono', folded e_def F_def L_def]
  have s: "level1_start e = Some 0"
    using ih by blast
  have hb: "length (level1_trigger_history e) \<le> (if level1_active e then 1 else 0)"
    using ih by blast
  have la: "level1_active e = (LEVEL1_DURATION_SECONDS \<le> L)"
    using ih by blast
  have cs_ih: "case F of
        None \<Rightarrow> level1_triggered_at e = None \<and> \<not> level2_active e
      | Some t1 \<Rightarrow> level1_triggered_at e = Some t1 \<and>
          level2_active e = (LEVEL2_DURATION_SECONDS \<le> fsub L t1)"
    using ih by blast
  have fn: "(F = None) = (L < LEVEL1_DURATION_SECONDS)"
    unfolding F_def L_def by (rule find_sorted_threshold [OF srt]) simp
  have l21: "level2_active e \<longrightarrow> level1_active e"
    using cs_ih fn la by (cases F) auto
  have step: "run_fl fsub cs AlertEngine_init = do_call_fl fsub e c"
    by (simp add: run_fl_def e_def cs)
  have F': "find (\<lambda>x. LEVEL1_DURATION_SECONDS \<le> x) (0 # (ts @ [t])) =
      (case F of Some a \<Rightarrow> Some a | None \<Rightarrow> if LEVEL1_DURATION_SECONDS \<le> t then Some t else None)"
    using find_snoc [of "\<lambda>x. LEVEL1_DURATION_SECONDS \<le> x" "0 # ts" t]
    by (simp add: F_def)
  have last': "last (0 # (ts @ [t])) = t" by simp
  have ext: "fsub t 0 = t" "fsub t t = 0"
    using snoc.prems(3) by simp_all
  have s': "level1_start e = Some 0 \<or> (level1_start e = None \<and> t = 0)"
    using s by simp
  note st = drowsy_frame_step [where fsub = fsub and t = t and e = e and c = c,
      OF c s' ext hb l21]
  show ?case
  proof (cases F)
    case None
    then have na: "\<not> level1_active e" and ta: "level1_triggered_at e = None"
      and nl2: "\<not> level2_active e"
      using cs_ih fn la by auto
    have ten: "\<not> LEVEL2_DURATION_SECONDS \<le> fsub t t"
      using ext(2) by (simp add: LEVEL2_DURATION_SECONDS_def)
    show ?thesis
      unfolding step F' last' None
      using st na ta nl2 ten by simp
  next
    case (Some t1)
    then have a: "level1_active e" and ta: "level1_triggered_at e = Some t1"
      and l2: "level2_active e = (LEVEL2_DURATION_SECONDS \<le> fsub L t1)"
      using cs_ih fn la by auto
    have "t1 \<in> set (0 # ts)"
      using Some unfolding F_def by (rule find_Some_in_set)
    then have in1: "t1 \<in> set (0 # ts @ [t])"
      using sub by blast
    have "L \<in> set (0 # ts)"
      unfolding L_def by simp
    then have in2: "L \<in> set (0 # ts @ [t])"
      using sub by blast
    have in3: "t \<in> set (0 # ts @ [t])"
      by simp
    have m: "fsub L t1 \<le> fsub t t1"
      using snoc.prems(4) in1 in2 in3 le by blast
    have "LEVEL1_DURATION_SECONDS \<le> t" using a la le by simp
    then show ?thesis
      unfolding step F' last' Some
      using st a ta l2 m by auto
  qed
qed

text \<open>
  Claim C4. Let \<open>process\<close> be called on a fresh engine with state DROWSY and without
  microsleep, first at t = 0 and then at the non-decreasing times \<open>ts\<close>, and let
  \<open>fsub\<close> be the subtraction the calls compute with. Of \<open>fsub\<close> the theorem asks what
  double subtraction gives on the times of the calls: \<open>t - 0 = t\<close>, \<open>t - t = 0\<close>,
  and \<open>a - c \<le> b - c\<close> whenever \<open>a \<le> b\<close>. After the call at the last time \<open>t\<close> the
  level is 0 if \<open>t < 3\<close>; otherwise \<open>level1_triggered_at\<close> is the time \<open>t1\<close> of the first
  call at or after LEVEL1_DURATION_SECONDS, and the level is 2 if the computed
  \<open>t - t1\<close> is at least LEVEL2_DURATION_SECONDS and 1 if it is not. Every prefix of
  the sequence is such a sequence, so this holds after each call; and as the computed
  \<open>t - t1\<close> does not decrease along the calls, Level 2 is raised at the first call
  where it reaches LEVEL2_DURATION_SECONDS and stays.
\<close>

theorem continuous_drowsy_escalation:
  assumes "list_all2 drowsy_frame_at (0 # ts) cs"
    and "sorted (0 # ts)"
    and "\<forall>t \<in> set (0 # ts). fsub t 0 = t \<and> fsub t t = 0"
    and "\<forall>a \<in> set (0 # ts). \<forall>b \<in> set (0 # ts). \<forall>c \<in> set (0 # ts).
           a \<le> b \<longrightarrow> fsub a c \<le> fsub b c"
  shows "let e = run_fl fsub cs AlertEngine_init; t = last (0 # ts)
         in (t < LEVEL1_DURATION_SECONDS \<longrightarrow> get_alert_level e = 0) \<and>
            (LEVEL1_DURATION_SECONDS \<le> t \<longrightarrow>
               (case find (\<lambda>x. LEVEL1_DURATION_SECONDS \<le> x) (0 # ts) of
                  None \<Rightarrow> False
                | Some t1 \<Rightarrow>
                    level1_triggered_at e = Some t1 \<and>
                    get_alert_level e =
                      (if LEVEL2_DURATION_SECONDS \<le> fsub t t1 then 2 else 1)))"
proof -
  have fn: "(find (\<lambda>x. LEVEL1_DURATION_SECONDS \<le> x) (0 # ts) = None) =
      (last (0 # ts) < LEVEL1_DURATION_SECONDS)"
    by (rule find_sorted_threshold [OF assms(2)]) simp
  show ?thesis
    using drowsy_run_invariant [OF assms] fn
    by (cases "find (\<lambda>x. LEVEL1_DURATION_SECONDS \<le> x) (0 # ts)")
       (auto simp add: Let_def get_alert_level_def)
qed

text \<open>The rounding subtraction \<open>grid_sub\<close> meets the three conditions.\<close>

lemma grid_sub_mono: "a \<le> b \<Longrightarrow> grid_sub a c \<le> grid_sub b c"
  by (simp add: grid_sub_def round_mono divide_right_mono)

lemma grid_sub_same: "grid_sub a a = 0"
  by (simp add: grid_sub_def)

lemma grid_sub_zero: "grid_sub a 0 = a"
  by (simp add: grid_sub_def)

lemma grid_sub_rounds_up:
  "grid_sub (7374644389819187 / 2 ^ 49) (6980579422424269 / 2 ^ 51) = 10"
  by (simp add: grid_sub_def round_def)

theorem continuous_drowsy_escalation_witness:
  "list_all2 drowsy_frame_at [0, 1, 3, 8, 13]
     [Process ''DROWSY'' 0 None None None (Some 0) None,
      Process ''DROWSY'' 1 (Some [1 / 2]) (Some 12) (Some 20) None (Some (3 / 10)),
      Process ''DROWSY'' 3 (Some []) None None (Some 0) None,
      Process ''DROWSY'' 8 None (Some 35) None (Some 0) None,
      Process ''DROWSY'' 13 None None None (Some 0) None] \<and>
   sorted [0, 1, 3, 8, 13 :: real] \<and>
   get_alert_level (run
     [Process ''DROWSY'' 0 None None None (Some 0) None,
      Process ''DROWSY'' 1 (Some [1 / 2]) (Some 12) (Some 20) None (Some (3 / 10))]
     AlertEngine_init) = 0 \<and>
   get_alert_level (run
     [Process ''DROWSY'' 0 None None None (Some 0) None,
      Process ''DROWSY'' 1 (Some [1 / 2]) (Some 12) (Some 20) None (Some (3 / 10)),
      Process ''DROWSY'' 3 (Some []) None None (Some 0) None,
      Process ''DROWSY'' 8 None (Some 35) None (Some 0) None]
     AlertEngine_init) = 1 \<and>
   level1_triggered_at (run
     [Process ''DROWSY'' 0 None None None (Some 0) None,
      Process ''DROWSY'' 1 (Some [1 / 2]) (Some 12) (Some 20) None (Some (3 / 10)),
      Process ''DROWSY'' 3 (Some []) None None (Some 0) None,
      Process ''DROWSY'' 8 None (Some 35) None (Some 0) None,
      Process ''DROWSY'' 13 None None None (Some 0) None]
     AlertEngine_init) = Some 3 \<and>
   get_alert_level (run
     [Process ''DROWSY'' 0 None None None (Some 0) None,
      Process ''DROWSY'' 1 (Some [1 / 2]) (Some 12) (Some 20) None (Some (3 / 10)),
      Process ''DROWSY'' 3 (Some []) None None (Some 0) None,
      Process ''DROWSY'' 8 None (Some 35) None (Some 0) None,
      Process ''DROWSY'' 13 None None None (Some 0) None]
     AlertEngine_init) = 2 \<and>
   list_all2 drowsy_frame_at [0, 6980579422424269 / 2 ^ 51, 7374644389819187 / 2 ^ 49]
     [Process ''DROWSY'' 0 None None None (Some 0) None,
      Process ''DROWSY'' (6980579422424269 / 2 ^ 51) None None None (Some 0) None,
      Process ''DROWSY'' (7374644389819187 / 2 ^ 49) None None None (Some 0) None] \<and>
   sorted [0, 6980579422424269 / 2 ^ 51, 7374644389819187 / 2 ^ 49 :: real] \<and>
   7374644389819187 / 2 ^ 49 - 6980579422424269 / 2 ^ 51 < LEVEL2_DURATION_SECONDS \<and>
   grid_sub (7374644389819187 / 2 ^ 49) (6980579422424269 / 2 ^ 51) = LEVEL2_DURATION_SECONDS \<and>
   get_alert_level (run_fl grid_sub
     [Process ''DROWSY'' 0 None None None (Some 0) None,
      Process ''DROWSY'' (6980579422424269 / 2 ^ 51) None None None (Some 0) None,
      Process ''DROWSY'' (7374644389819187 / 2 ^ 49) None None None (Some 0) None]
     AlertEngine_init) = 2"
proof -
  define c0 where "c0 = Process ''DROWSY'' 0 None None None (Some 0) None"
  define c1 where "c1 = Process ''DROWSY'' 1 (Some [1 / 2]) (Some 12) (Some 20) None (Some (3 / 10))"
  define c3 where "c3 = Process ''DROWSY'' 3 (Some []) None None (Some 0) None"
  define c8 where "c8 = Process ''DROWSY'' 8 None (Some 35) None (Some 0) None"
  define c13 where "c13 = Process ''DROWSY'' 13 None None None (Some 0) None"
  define d3 :: real where "d3 = 6980579422424269 / 2 ^ 51"
  define d13 :: real where "d13 = 7374644389819187 / 2 ^ 49"
  define k3 where "k3 = Process ''DROWSY'' d3 None None None (Some 0) None"
  define k13 where "k13 = Process ''DROWSY'' d13 None None None (Some 0) None"
  have ms: "\<not> check_microsleep_trigger (Some 0)" "\<not> check_microsleep_trigger None"
    by (simp_all add: check_microsleep_trigger_def)
  have exact: "\<forall>t \<in> set (0 # ts). t - 0 = t \<and> t - t = 0" for ts :: "real list"
    by simp
  have mono: "\<forall>a \<in> set (0 # ts). \<forall>b \<in> set (0 # ts). \<forall>c \<in> set (0 # ts).
      a \<le> b \<longrightarrow> a - c \<le> b - c" for ts :: "real list"
    by simp
  have gexact: "\<forall>t \<in> set (0 # ts). grid_sub t 0 = t \<and> grid_sub t t = 0" for ts
    using grid_sub_zero grid_sub_same by blast
  have gmono: "\<forall>a \<in> set (0 # ts). \<forall>b \<in> set (0 # ts). \<forall>c \<in> set (0 # ts).
      a \<le> b \<longrightarrow> grid_sub a c \<le> grid_sub b c" for ts
    using grid_sub_mono by blast
  have f1: "list_all2 drowsy_frame_at [0, 1] [c0, c1]"
    and f4: "list_all2 drowsy_frame_at [0, 1, 3, 8] [c0, c1, c3, c8]"
    and f5: "list_all2 drowsy_frame_at [0, 1, 3, 8, 13] [c0, c1, c3, c8, c13]"
    and g: "list_all2 drowsy_frame_at [0, d3, d13] [c0, k3, k13]"
    using ms by (simp_all add: c0_def c1_def c3_def c8_def c13_def k3_def k13_def)
  have s5: "sorted [0, 1, 3, 8, 13 :: real]" and s4: "sorted [0, 1, 3, 8 :: real]"
    and s1: "sorted [0, 1 :: real]"
    by simp_all
  have sg: "sorted [0, d3, d13]"
    by (simp add: d3_def d13_def)
  have below: "d13 - d3 < LEVEL2_DURATION_SECONDS"
    by (simp add: d3_def d13_def LEVEL2_DURATION_SECONDS_def)
  have up: "grid_sub d13 d3 = LEVEL2_DURATION_SECONDS"
    unfolding d3_def d13_def LEVEL2_DURATION_SECONDS_def by (rule grid_sub_rounds_up)
  have three: "LEVEL1_DURATION_SECONDS \<le> d3" "LEVEL1_DURATION_SECONDS \<le> d13"
    by (simp_all add: d3_def d13_def LEVEL1_DURATION_SECONDS_def)
  have zero: "\<not> LEVEL1_DURATION_SECONDS \<le> 0"
    by (simp add: LEVEL1_DURATION_SECONDS_def)
  note w1 = continuous_drowsy_escalation [where fsub = "(-)", OF f1 s1 exact mono]
  note w4 = continuous_drowsy_escalation [where fsub = "(-)", OF f4 s4 exact mono]
  note w5 = continuous_drowsy_escalation [where fsub = "(-)", OF f5 s5 exact mono]
  note wg = continuous_drowsy_escalation [where fsub = grid_sub, OF g sg gexact gmono]
  have r1: "get_alert_level (run [c0, c1] AlertEngine_init) = 0"
    using w1 by (simp add: Let_def LEVEL1_DURATION_SECONDS_def)
  have r4: "get_alert_level (run [c0, c1, c3, c8] AlertEngine_init) = 1"
    using w4 by (simp add: Let_def LEVEL1_DURATION_SECONDS_def LEVEL2_DURATION_SECONDS_def)
  have r5: "level1_triggered_at (run [c0, c1, c3, c8, c13] AlertEngine_init) = Some 3"
    "get_alert_level (run [c0, c1, c3, c8, c13] AlertEngine_init) = 2"
    using w5 by (simp_all add: Let_def LEVEL1_DURATION_SECONDS_def LEVEL2_DURATION_SECONDS_def)
  have rg: "get_alert_level (run_fl grid_sub [c0, k3, k13] AlertEngine_init) = 2"
    using wg three up zero by (simp add: Let_def)
  show ?thesis
    using f5 s5 r1 r4 r5 g sg below up rg
    unfolding c0_def c1_def c3_def c8_def c13_def k3_def k13_def d3_def d13_def
    by blast
qed

end
